theory Spec2Isabelle
  imports Complex_Main "HOL-Library.AList" "HOL-Library.Multiset"
begin

section \<open>The vision service and its reconfigurable shim\<close>

text \<open>
  A shallow embedding of package \<^verbatim>\<open>vision\<close> (the service file of the sources): the
  accessor \<^verbatim>\<open>FromRobot\<close>, the service \<^verbatim>\<open>visionService\<close> over its model registry,
  and the wrapper \<^verbatim>\<open>reconfigurableVision\<close>.

  Go methods that mutate their receiver take the receiver's state and return the new
  state next to the result; a Go \<^verbatim>\<open>error\<close> result is an \<open>error option\<close>
  (\<open>None\<close> is \<^verbatim>\<open>nil\<close>), a result \<^verbatim>\<open>(T, error)\<close> is \<open>error + T\<close>.
  Tracing spans and the \<^verbatim>\<open>context.Context\<close> carry no data that a result depends on
  and are left out. The \<^verbatim>\<open>sync.RWMutex\<close> of the shim orders concurrent calls; a
  sequential call sees it locked and unlocked around the body, so the sequential
  embedding leaves it out as well.
\<close>

subsection \<open>Resource names\<close>

text \<open>
  \<^verbatim>\<open>resource.NewSubtype(resource.ResourceNamespaceRDK, resource.ResourceTypeService,
  SubtypeName)\<close> and \<^verbatim>\<open>resource.NameFromSubtype(Subtype, name)\<close>. The two constants of
  package \<^verbatim>\<open>resource\<close> are constructors, so that no value is invented for them.
\<close>

datatype resource_Namespace = ResourceNamespaceRDK | OtherNamespace string

datatype resource_Type = ResourceTypeService | ResourceTypeComponent

datatype resource_Subtype = NewSubtype resource_Namespace resource_Type string

datatype resource_Name = NameFromSubtype resource_Subtype string

definition SubtypeName :: string where
  "SubtypeName = ''vision''"

definition Subtype :: resource_Subtype where
  "Subtype = NewSubtype ResourceNamespaceRDK ResourceTypeService SubtypeName"

definition Named :: "string \<Rightarrow> resource_Name" where
  "Named name = NameFromSubtype Subtype name"

subsection \<open>Errors\<close>

type_synonym VisModelType = string

text \<open>
  Modelled from the spec: the error values. The constructors of package \<^verbatim>\<open>utils\<close>
  (\<^verbatim>\<open>NewResourceNotFoundError\<close>, \<^verbatim>\<open>NewUnimplementedInterfaceError\<close>,
  \<^verbatim>\<open>NewUnexpectedTypeError\<close>) are not among the sources; sections 4.2 and 7 say that a
  not-found error is for the name looked up and that an interface or type mismatch names
  the actual concrete kind found, so \<open>ResourceNotFoundError\<close> carries the resource
  name and the two mismatch errors carry the kind of the value they were given
  (\<open>UnexpectedTypeError\<close> the expected kind first).
  \<open>NoSchemaError t\<close> is \<^verbatim>\<open>errors.Errorf("do not have a schema for model type %q", t)\<close>
  of the sources. \<open>ModelNotFound\<close>, \<open>TypeMismatch\<close> and \<open>ValidationFailure\<close> are the
  failures the spec gives the lookup, the adapters and the registration of the model
  registry (section 4.4); \<open>UpstreamFailure\<close> is any
  error of a collaborator (a camera, a model, a factory, a release hook).
\<close>

datatype error =
    ResourceNotFoundError resource_Name
  | UnimplementedInterfaceError string
  | UnexpectedTypeError string string
  | NoSchemaError VisModelType
  | ModelNotFound string
  | TypeMismatch string
  | ValidationFailure VisModelType
  | UpstreamFailure string

subsection \<open>Models and the model registry\<close>

text \<open>
  \<^verbatim>\<open>objdet.Detection\<close> and \<^verbatim>\<open>viz.Object\<close> are opaque results. A classification
  has a label and a confidence (\<^verbatim>\<open>Label()\<close>, \<^verbatim>\<open>Score()\<close>); the confidence is a
  \<^verbatim>\<open>float64\<close> that is only ever compared, taken here as a real number (no NaN).
  An image is any type \<open>'i\<close>. A camera is seen through \<^verbatim>\<open>camera.ReadImage\<close> only:
  it is the outcome of reading its next image.
\<close>

typedecl Detection

typedecl Object

record Classification =
  Label :: string
  Score :: real

type_synonym Classifications = "Classification list"

type_synonym 'i Camera = "error + 'i"

datatype ModelKind = Detector | Classifier | Segmenter

text \<open>
  Modelled from the spec: the registered model (the type \<^verbatim>\<open>registeredModel\<close> is not
  among the sources). Section 3: a model is a named unit with a kind, configuration
  parameters and an executable adapter; section 4.4: a model may hold external resources
  with a release hook. The name is the key of the registry; the kind is the shape of
  the adapter; \<open>closer = None\<close> is a model without a release hook and
  \<open>closer = Some res\<close> one whose hook returns \<open>res\<close> when it is invoked.
\<close>

datatype 'i Adapter =
    DetectorFn "'i \<Rightarrow> error + Detection list"
  | ClassifierFn "'i \<Rightarrow> error + Classifications"
  | SegmenterFn "'i Camera \<Rightarrow> error + Object list"

record 'i Model =
  adapter :: "'i Adapter"
  closer :: "error option option"

fun kindOf :: "'i Adapter \<Rightarrow> ModelKind" where
  "kindOf (DetectorFn f) = Detector"
| "kindOf (ClassifierFn f) = Classifier"
| "kindOf (SegmenterFn f) = Segmenter"

definition kind :: "'i Model \<Rightarrow> ModelKind" where
  "kind m = kindOf (adapter m)"

text \<open>
  \<^verbatim>\<open>type modelMap\<close>: a Go map from model name to model. It is an association list
  with distinct keys (\<open>wf_modelMap\<close>); the order of the list stands for the order in
  which a \<^verbatim>\<open>range\<close> loop visits the map, which Go leaves unspecified.
\<close>

type_synonym 'i modelMap = "(string \<times> 'i Model) list"

definition wf_modelMap :: "'i modelMap \<Rightarrow> bool" where
  "wf_modelMap mm = distinct (map fst mm)"

datatype AttrValue = StringAttr string | IntAttr int | FloatAttr real

type_synonym AttributeMap = "(string \<times> AttrValue) list"

record VisModelConfig =
  Name :: string
  Type :: string
  Parameters :: AttributeMap

record Attributes =
  ModelRegistry :: "VisModelConfig list"

text \<open>
  The process-wide tables the service reads and that are not among the sources: the
  factories keyed by type-tag that \<^verbatim>\<open>registerNewVisModels\<close> consults, and the constant
  \<^verbatim>\<open>DetectorSegmenter\<close>. They are parameters of the model. A factory sees the
  registry and the config, and builds a model or fails.
\<close>

record 'i Globals =
  factories :: "VisModelType \<Rightarrow> ('i modelMap \<Rightarrow> VisModelConfig \<Rightarrow> error + 'i Model) option"
  DetectorSegmenter :: VisModelType

text \<open>
  Modelled from the spec: \<^verbatim>\<open>modelMap.modelLookup\<close> (missing from the sources).
  Section 4.4: \<^verbatim>\<open>Lookup(name) -> Model\<close>, fails with \<^verbatim>\<open>NotFound\<close> if absent.
\<close>

definition modelLookup :: "string \<Rightarrow> 'i modelMap \<Rightarrow> error + 'i Model" where
  "modelLookup name mm =
     (case map_of mm name of
        None \<Rightarrow> Inl (ModelNotFound name)
      | Some m \<Rightarrow> Inr m)"

text \<open>
  Modelled from the spec: \<^verbatim>\<open>toDetector\<close>, \<^verbatim>\<open>toClassifier\<close>, \<^verbatim>\<open>toSegmenter\<close>
  (missing from the sources). Section 4.4: convert a model into a callable of the
  requested shape; fail with \<^verbatim>\<open>TypeMismatch\<close> if the model's kind does not match.
\<close>

definition toDetector :: "'i Model \<Rightarrow> error + ('i \<Rightarrow> error + Detection list)" where
  "toDetector m =
     (case adapter m of
        DetectorFn f \<Rightarrow> Inr f
      | _ \<Rightarrow> Inl (TypeMismatch ''detector''))"

definition toClassifier :: "'i Model \<Rightarrow> error + ('i \<Rightarrow> error + Classifications)" where
  "toClassifier m =
     (case adapter m of
        ClassifierFn f \<Rightarrow> Inr f
      | _ \<Rightarrow> Inl (TypeMismatch ''classifier''))"

definition toSegmenter :: "'i Model \<Rightarrow> error + ('i Camera \<Rightarrow> error + Object list)" where
  "toSegmenter m =
     (case adapter m of
        SegmenterFn f \<Rightarrow> Inr f
      | _ \<Rightarrow> Inl (TypeMismatch ''segmenter''))"

text \<open>
  Modelled from the spec: \<^verbatim>\<open>modelMap.removeVisModel\<close> (missing from the sources).
  Section 4.4: \<^verbatim>\<open>RemoveModel(name)\<close> deletes the entry, invoking a release hook if the
  model holds external resources. A hook that fails makes the removal fail (section 4.5:
  a removal can fail), and the entry is then still registered. Removing a name that is
  not registered changes nothing and is no failure: sections 3 and 4.4 say that the
  absence of a detector's derived segmenter is not an error for the detector's removal,
  and \<^verbatim>\<open>RemoveDetector\<close> of the sources, whose comment reads "remove the associated
  segmenter as well (if there is one)", returns the result of this helper unchanged.
  (One sentence of section 4.4 has \<^verbatim>\<open>RemoveModel\<close> fail with \<^verbatim>\<open>NotFound\<close> if absent;
  it cannot hold together with those two and the source comment, which are followed here.)
\<close>

definition release :: "'i Model \<Rightarrow> error option" where
  "release m = (case closer m of None \<Rightarrow> None | Some res \<Rightarrow> res)"

definition removeVisModel :: "string \<Rightarrow> 'i modelMap \<Rightarrow> 'i modelMap \<times> error option" where
  "removeVisModel name mm =
     (case map_of mm name of
        None \<Rightarrow> (mm, None)
      | Some m \<Rightarrow>
          (case release m of
             Some err \<Rightarrow> (mm, Some err)
           | None \<Rightarrow> (AList.delete name mm, None)))"

text \<open>
  Modelled from the spec: \<^verbatim>\<open>registerNewVisModels\<close> (missing from the sources).
  Section 4.4: for each config in order, look up the factory keyed by its type-tag; an
  unknown tag fails with \<^verbatim>\<open>ValidationFailure\<close> naming the tag; otherwise construct
  the model and insert it; a failure partway leaves the earlier models registered.
\<close>

fun registerModels :: "'i Globals \<Rightarrow> 'i modelMap \<Rightarrow> VisModelConfig list \<Rightarrow> 'i modelMap \<times> error option" where
  "registerModels g mm [] = (mm, None)"
| "registerModels g mm (attr # rest) =
     (case factories g (Type attr) of
        None \<Rightarrow> (mm, Some (ValidationFailure (Type attr)))
      | Some build \<Rightarrow>
          (case build mm attr of
             Inl err \<Rightarrow> (mm, Some err)
           | Inr m \<Rightarrow> registerModels g (AList.update (Name attr) m mm) rest))"

definition registerNewVisModels :: "'i Globals \<Rightarrow> 'i modelMap \<Rightarrow> Attributes \<Rightarrow> 'i modelMap \<times> error option" where
  "registerNewVisModels g mm attrs = registerModels g mm (ModelRegistry attrs)"

text \<open>
  Modelled from the spec: \<^verbatim>\<open>modelNames\<close>, \<^verbatim>\<open>DetectorNames\<close>,
  \<^verbatim>\<open>ClassifierNames\<close>, \<^verbatim>\<open>SegmenterNames\<close> (missing from the sources): the names of
  all registered models, and of those of one kind (section 6: list names, per kind).
\<close>

definition modelNames :: "'i modelMap \<Rightarrow> string list" where
  "modelNames mm = map fst mm"

definition namesOfKind :: "ModelKind \<Rightarrow> 'i modelMap \<Rightarrow> string list" where
  "namesOfKind k mm = map fst (filter (\<lambda>p. kind (snd p) = k) mm)"

definition DetectorNames :: "'i modelMap \<Rightarrow> string list" where
  "DetectorNames mm = namesOfKind Detector mm"

definition ClassifierNames :: "'i modelMap \<Rightarrow> string list" where
  "ClassifierNames mm = namesOfKind Classifier mm"

definition SegmenterNames :: "'i modelMap \<Rightarrow> string list" where
  "SegmenterNames mm = namesOfKind Segmenter mm"

text \<open>
  Modelled from the spec: \<^verbatim>\<open>Classifications.TopN\<close> (package \<^verbatim>\<open>classification\<close> is
  not among the sources). Section 4.5: reduces a full classification output to the top-N
  entries by descending confidence; the result length is \<^verbatim>\<open>min(N, available)\<close>. Equal
  confidences keep their order here (the spec leaves the tie-break open), and a negative
  \<open>n\<close>, for which the spec says nothing, yields no entry.
\<close>

definition TopN :: "int \<Rightarrow> Classifications \<Rightarrow> error + Classifications" where
  "TopN n cc = Inr (take (nat n) (sort_key (\<lambda>c. - Score c) cc))"

text \<open>
  Modelled from the spec: \<^verbatim>\<open>camera.FromRobot\<close> and \<^verbatim>\<open>camera.ReadImage\<close> (package
  \<^verbatim>\<open>components/camera\<close> is not among the sources). Section 4.5: resolve the upstream
  source by name, which may fail; acquire one unit of input data, which may fail. The
  robot of a vision service is consulted through \<^verbatim>\<open>camera.FromRobot\<close> only, so it is
  the function from a camera name to the outcome of that call.
\<close>

type_synonym 'i CameraRobot = "string \<Rightarrow> error + 'i Camera"

definition camera_FromRobot :: "'i CameraRobot \<Rightarrow> string \<Rightarrow> error + 'i Camera" where
  "camera_FromRobot r name = r name"

definition camera_ReadImage :: "'i Camera \<Rightarrow> error + 'i" where
  "camera_ReadImage cam = cam"

subsection \<open>The vision service\<close>

text \<open>\<^verbatim>\<open>type visionService struct\<close>; the field \<^verbatim>\<open>r\<close> is \<open>robot\<close>, the logger is left out.\<close>

record 'i visionService =
  robot :: "'i CameraRobot"
  modReg :: "'i modelMap"

text \<open>
  \<^verbatim>\<open>GetModelParameterSchema\<close>. The table \<^verbatim>\<open>RegisteredModelParameterSchemas\<close>, a Go
  map from type-tag to schema pointer, is not among the sources and is a parameter:
  \<open>None\<close> is a tag that is not a key, \<open>Some None\<close> a key whose pointer is \<^verbatim>\<open>nil\<close>.
\<close>

definition visionService_GetModelParameterSchema ::
  "(VisModelType \<Rightarrow> 's option option) \<Rightarrow> VisModelType \<Rightarrow> error + 's" where
  "visionService_GetModelParameterSchema RegisteredModelParameterSchemas modelType =
     (case RegisteredModelParameterSchemas modelType of
        Some modelSchema \<Rightarrow>
          (case modelSchema of
             None \<Rightarrow> Inl (NoSchemaError modelType)
           | Some schema \<Rightarrow> Inr schema)
      | None \<Rightarrow> Inl (NoSchemaError modelType))"

definition visionService_GetDetectorNames :: "'i visionService \<Rightarrow> error + string list" where
  "visionService_GetDetectorNames vs = Inr (DetectorNames (modReg vs))"

definition visionService_AddSegmenter ::
  "'i Globals \<Rightarrow> VisModelConfig \<Rightarrow> 'i visionService \<Rightarrow> 'i visionService \<times> error option" where
  "visionService_AddSegmenter g cfg vs =
     (let attrs = \<lparr>ModelRegistry = [cfg]\<rparr>;
          (mm, err) = registerNewVisModels g (modReg vs) attrs
      in (vs\<lparr>modReg := mm\<rparr>, err))"

definition segmenterConf :: "'i Globals \<Rightarrow> VisModelConfig \<Rightarrow> VisModelConfig" where
  "segmenterConf g cfg =
     \<lparr>Name = Name cfg @ ''_segmenter'',
      Type = DetectorSegmenter g,
      Parameters = [(''detector_name'', StringAttr (Name cfg)), (''mean_k'', IntAttr 0),
                    (''sigma'', FloatAttr 0)]\<rparr>"

definition visionService_AddDetector ::
  "'i Globals \<Rightarrow> VisModelConfig \<Rightarrow> 'i visionService \<Rightarrow> 'i visionService \<times> error option" where
  "visionService_AddDetector g cfg vs =
     (let attrs = \<lparr>ModelRegistry = [cfg]\<rparr>;
          (mm, err) = registerNewVisModels g (modReg vs) attrs
      in case err of
           Some e \<Rightarrow> (vs\<lparr>modReg := mm\<rparr>, Some e)
         | None \<Rightarrow> visionService_AddSegmenter g (segmenterConf g cfg) (vs\<lparr>modReg := mm\<rparr>))"

definition visionService_RemoveSegmenter ::
  "string \<Rightarrow> 'i visionService \<Rightarrow> 'i visionService \<times> error option" where
  "visionService_RemoveSegmenter segmenterName vs =
     (let (mm, err) = removeVisModel segmenterName (modReg vs)
      in (vs\<lparr>modReg := mm\<rparr>, err))"

definition visionService_RemoveDetector ::
  "string \<Rightarrow> 'i visionService \<Rightarrow> 'i visionService \<times> error option" where
  "visionService_RemoveDetector detectorName vs =
     (let (mm, err) = removeVisModel detectorName (modReg vs)
      in case err of
           Some e \<Rightarrow> (vs\<lparr>modReg := mm\<rparr>, Some e)
         | None \<Rightarrow> visionService_RemoveSegmenter (detectorName @ ''_segmenter'') (vs\<lparr>modReg := mm\<rparr>))"

definition visionService_GetDetectionsFromCamera ::
  "string \<Rightarrow> string \<Rightarrow> 'i visionService \<Rightarrow> error + Detection list" where
  "visionService_GetDetectionsFromCamera cameraName detectorName vs =
     (case camera_FromRobot (robot vs) cameraName of
        Inl err \<Rightarrow> Inl err
      | Inr cam \<Rightarrow>
          (case modelLookup detectorName (modReg vs) of
             Inl err \<Rightarrow> Inl err
           | Inr d \<Rightarrow>
               (case toDetector d of
                  Inl err \<Rightarrow> Inl err
                | Inr detector \<Rightarrow>
                    (case camera_ReadImage cam of
                       Inl err \<Rightarrow> Inl err
                     | Inr img \<Rightarrow> detector img))))"

definition visionService_GetDetections ::
  "'i \<Rightarrow> string \<Rightarrow> 'i visionService \<Rightarrow> error + Detection list" where
  "visionService_GetDetections img detectorName vs =
     (case modelLookup detectorName (modReg vs) of
        Inl err \<Rightarrow> Inl err
      | Inr d \<Rightarrow>
          (case toDetector d of
             Inl err \<Rightarrow> Inl err
           | Inr detector \<Rightarrow> detector img))"

definition visionService_GetClassifierNames :: "'i visionService \<Rightarrow> error + string list" where
  "visionService_GetClassifierNames vs = Inr (ClassifierNames (modReg vs))"

definition visionService_AddClassifier ::
  "'i Globals \<Rightarrow> VisModelConfig \<Rightarrow> 'i visionService \<Rightarrow> 'i visionService \<times> error option" where
  "visionService_AddClassifier g cfg vs =
     (let attrs = \<lparr>ModelRegistry = [cfg]\<rparr>;
          (mm, err) = registerNewVisModels g (modReg vs) attrs
      in case err of
           Some e \<Rightarrow> (vs\<lparr>modReg := mm\<rparr>, Some e)
         | None \<Rightarrow> (vs\<lparr>modReg := mm\<rparr>, None))"

definition visionService_RemoveClassifier ::
  "string \<Rightarrow> 'i visionService \<Rightarrow> 'i visionService \<times> error option" where
  "visionService_RemoveClassifier classifierName vs =
     (let (mm, err) = removeVisModel classifierName (modReg vs)
      in case err of
           Some e \<Rightarrow> (vs\<lparr>modReg := mm\<rparr>, Some e)
         | None \<Rightarrow> (vs\<lparr>modReg := mm\<rparr>, None))"

definition visionService_GetClassificationsFromCamera ::
  "string \<Rightarrow> string \<Rightarrow> int \<Rightarrow> 'i visionService \<Rightarrow> error + Classifications" where
  "visionService_GetClassificationsFromCamera cameraName classifierName n vs =
     (case camera_FromRobot (robot vs) cameraName of
        Inl err \<Rightarrow> Inl err
      | Inr cam \<Rightarrow>
          (case modelLookup classifierName (modReg vs) of
             Inl err \<Rightarrow> Inl err
           | Inr c \<Rightarrow>
               (case toClassifier c of
                  Inl err \<Rightarrow> Inl err
                | Inr classifier \<Rightarrow>
                    (case camera_ReadImage cam of
                       Inl err \<Rightarrow> Inl err
                     | Inr img \<Rightarrow>
                         (case classifier img of
                            Inl err \<Rightarrow> Inl err
                          | Inr fullClassifications \<Rightarrow> TopN n fullClassifications)))))"

definition visionService_GetClassifications ::
  "'i \<Rightarrow> string \<Rightarrow> int \<Rightarrow> 'i visionService \<Rightarrow> error + Classifications" where
  "visionService_GetClassifications img classifierName n vs =
     (case modelLookup classifierName (modReg vs) of
        Inl err \<Rightarrow> Inl err
      | Inr c \<Rightarrow>
          (case toClassifier c of
             Inl err \<Rightarrow> Inl err
           | Inr classifier \<Rightarrow>
               (case classifier img of
                  Inl err \<Rightarrow> Inl err
                | Inr fullClassifications \<Rightarrow> TopN n fullClassifications)))"

definition visionService_GetSegmenterNames :: "'i visionService \<Rightarrow> error + string list" where
  "visionService_GetSegmenterNames vs = Inr (SegmenterNames (modReg vs))"

definition visionService_GetObjectPointClouds ::
  "string \<Rightarrow> string \<Rightarrow> 'i visionService \<Rightarrow> error + Object list" where
  "visionService_GetObjectPointClouds cameraName segmenterName vs =
     (case camera_FromRobot (robot vs) cameraName of
        Inl err \<Rightarrow> Inl err
      | Inr cam \<Rightarrow>
          (case modelLookup segmenterName (modReg vs) of
             Inl err \<Rightarrow> Inl err
           | Inr s \<Rightarrow>
               (case toSegmenter s of
                  Inl err \<Rightarrow> Inl err
                | Inr segmenter \<Rightarrow> segmenter cam)))"

text \<open>
  \<^verbatim>\<open>New\<close>. The field \<^verbatim>\<open>config.ConvertedAttributes\<close> is \<^verbatim>\<open>nil\<close>, a
  \<^verbatim>\<open>*Attributes\<close>, or a value of another concrete kind.
\<close>

datatype ConvertedAttributes =
    NilAttributes
  | AttributesPtr Attributes
  | OtherAttributes string

definition New :: "'i Globals \<Rightarrow> 'i CameraRobot \<Rightarrow> ConvertedAttributes \<Rightarrow> error + 'i visionService" where
  "New g r convertedAttributes =
     (let modMap = [] in
      case convertedAttributes of
        NilAttributes \<Rightarrow> Inr \<lparr>robot = r, modReg = modMap\<rparr>
      | OtherAttributes k \<Rightarrow> Inl (UnexpectedTypeError ''*vision.Attributes'' k)
      | AttributesPtr attrs \<Rightarrow>
          (case registerNewVisModels g modMap attrs of
             (mm, Some err) \<Rightarrow> Inl err
           | (mm, None) \<Rightarrow> Inr \<lparr>robot = r, modReg = mm\<rparr>))"

text \<open>
  \<^verbatim>\<open>Close\<close>: the loop over \<^verbatim>\<open>vs.modReg.modelNames()\<close>, which returns at the first
  removal that fails.
\<close>

fun Close_loop :: "string list \<Rightarrow> 'i modelMap \<Rightarrow> 'i modelMap \<times> error option" where
  "Close_loop [] mm = (mm, None)"
| "Close_loop (detectorName # models) mm =
     (case removeVisModel detectorName mm of
        (mm', Some err) \<Rightarrow> (mm', Some err)
      | (mm', None) \<Rightarrow> Close_loop models mm')"

definition visionService_Close :: "'i visionService \<Rightarrow> 'i visionService \<times> error option" where
  "visionService_Close vs =
     (let models = modelNames (modReg vs);
          (mm, err) = Close_loop models (modReg vs)
      in (vs\<lparr>modReg := mm\<rparr>, err))"

subsection \<open>Services, the shim and dynamic values\<close>

text \<open>
  \<^verbatim>\<open>type Service interface\<close> and \<^verbatim>\<open>type reconfigurableVision struct\<close>. A value of the
  interface is one of its implementations in the sources: a \<^verbatim>\<open>*visionService\<close> or a
  \<^verbatim>\<open>*reconfigurableVision\<close>, whose field \<open>actual\<close> is a \<open>Service\<close> again. A method
  call on a \<open>Service\<close> dispatches on the implementation; a shim is a value here, so
  "the same shim" is the equal value.
\<close>

datatype 'i Service =
    VisionService "'i visionService"
  | ReconfigurableVision "'i reconfigurableVision"
and 'i reconfigurableVision =
    Shim (actual: "'i Service")

text \<open>
  A Go value of static type \<^verbatim>\<open>interface{}\<close> or \<^verbatim>\<open>resource.Reconfigurable\<close>: a
  service, or a value of another concrete kind (named as \<^verbatim>\<open>%T\<close> prints it) that does
  not implement \<open>Service\<close>. \<open>asService\<close> is the type assertion \<^verbatim>\<open>s.(Service)\<close> and
  \<open>asReconfigurableVision\<close> the assertion \<^verbatim>\<open>s.(*reconfigurableVision)\<close>.
\<close>

datatype 'i object =
    ServiceObject "'i Service"
  | OtherObject string

fun concreteKind :: "'i object \<Rightarrow> string" where
  "concreteKind (ServiceObject (VisionService vs)) = ''*vision.visionService''"
| "concreteKind (ServiceObject (ReconfigurableVision svc)) = ''*vision.reconfigurableVision''"
| "concreteKind (OtherObject k) = k"

fun asService :: "'i object \<Rightarrow> 'i Service option" where
  "asService (ServiceObject svc) = Some svc"
| "asService (OtherObject k) = None"

fun asReconfigurableVision :: "'i object \<Rightarrow> 'i reconfigurableVision option" where
  "asReconfigurableVision (ServiceObject (ReconfigurableVision svc)) = Some svc"
| "asReconfigurableVision (ServiceObject (VisionService vs)) = None"
| "asReconfigurableVision (OtherObject k) = None"

text \<open>
  \<^verbatim>\<open>NewUnimplementedInterfaceError\<close> of the sources passes its argument on to
  \<^verbatim>\<open>utils.NewUnimplementedInterfaceError\<close>. Modelled from the spec: that constructor and
  \<^verbatim>\<open>utils.NewUnexpectedTypeError\<close> (both missing from the sources) name the concrete
  kind of the value they are given.
\<close>

definition NewUnimplementedInterfaceError :: "'i object \<Rightarrow> error" where
  "NewUnimplementedInterfaceError actual_value = UnimplementedInterfaceError (concreteKind actual_value)"

definition NewUnexpectedTypeError :: "'i object \<Rightarrow> 'i object \<Rightarrow> error" where
  "NewUnexpectedTypeError expected actual_value =
     UnexpectedTypeError (concreteKind expected) (concreteKind actual_value)"

text \<open>
  \<^verbatim>\<open>FromRobot\<close>. The robot is seen through \<^verbatim>\<open>r.ResourceByName\<close>: a function from a
  resource name to the resource or an error.
\<close>

type_synonym 'i Robot = "resource_Name \<Rightarrow> error + 'i object"

definition FromRobot :: "'i Robot \<Rightarrow> string \<Rightarrow> error + 'i Service" where
  "FromRobot r name =
     (case r (Named name) of
        Inl err \<Rightarrow> Inl (ResourceNotFoundError (Named name))
      | Inr resource \<Rightarrow>
          (case asService resource of
             None \<Rightarrow> Inl (NewUnimplementedInterfaceError resource)
           | Some svc \<Rightarrow> Inr svc))"

text \<open>
  The methods of the shim, each next to the dispatch of the same method on a
  \<open>Service\<close>: \<open>Service_M\<close> is the call \<^verbatim>\<open>svc.actual.M(...)\<close> on an interface value.
\<close>

primrec Service_GetModelParameterSchema ::
    "(VisModelType \<Rightarrow> 's option option) \<Rightarrow> VisModelType \<Rightarrow> 'i Service \<Rightarrow> error + 's"
  and reconfigurableVision_GetModelParameterSchema ::
    "(VisModelType \<Rightarrow> 's option option) \<Rightarrow> VisModelType \<Rightarrow> 'i reconfigurableVision \<Rightarrow> error + 's" where
  "Service_GetModelParameterSchema tab modelType (VisionService vs) =
     visionService_GetModelParameterSchema tab modelType"
| "Service_GetModelParameterSchema tab modelType (ReconfigurableVision svc) =
     reconfigurableVision_GetModelParameterSchema tab modelType svc"
| "reconfigurableVision_GetModelParameterSchema tab modelType (Shim a) =
     Service_GetModelParameterSchema tab modelType a"

primrec Service_GetDetectorNames :: "'i Service \<Rightarrow> error + string list"
  and reconfigurableVision_GetDetectorNames :: "'i reconfigurableVision \<Rightarrow> error + string list" where
  "Service_GetDetectorNames (VisionService vs) = visionService_GetDetectorNames vs"
| "Service_GetDetectorNames (ReconfigurableVision svc) = reconfigurableVision_GetDetectorNames svc"
| "reconfigurableVision_GetDetectorNames (Shim a) = Service_GetDetectorNames a"

primrec Service_AddDetector ::
    "'i Globals \<Rightarrow> VisModelConfig \<Rightarrow> 'i Service \<Rightarrow> 'i Service \<times> error option"
  and reconfigurableVision_AddDetector ::
    "'i Globals \<Rightarrow> VisModelConfig \<Rightarrow> 'i reconfigurableVision \<Rightarrow> 'i reconfigurableVision \<times> error option" where
  "Service_AddDetector g cfg (VisionService vs) =
     map_prod VisionService id (visionService_AddDetector g cfg vs)"
| "Service_AddDetector g cfg (ReconfigurableVision svc) =
     map_prod ReconfigurableVision id (reconfigurableVision_AddDetector g cfg svc)"
| "reconfigurableVision_AddDetector g cfg (Shim a) =
     map_prod Shim id (Service_AddDetector g cfg a)"

primrec Service_RemoveDetector :: "string \<Rightarrow> 'i Service \<Rightarrow> 'i Service \<times> error option"
  and reconfigurableVision_RemoveDetector ::
    "string \<Rightarrow> 'i reconfigurableVision \<Rightarrow> 'i reconfigurableVision \<times> error option" where
  "Service_RemoveDetector detectorName (VisionService vs) =
     map_prod VisionService id (visionService_RemoveDetector detectorName vs)"
| "Service_RemoveDetector detectorName (ReconfigurableVision svc) =
     map_prod ReconfigurableVision id (reconfigurableVision_RemoveDetector detectorName svc)"
| "reconfigurableVision_RemoveDetector detectorName (Shim a) =
     map_prod Shim id (Service_RemoveDetector detectorName a)"

primrec Service_GetDetectionsFromCamera ::
    "string \<Rightarrow> string \<Rightarrow> 'i Service \<Rightarrow> error + Detection list"
  and reconfigurableVision_GetDetectionsFromCamera ::
    "string \<Rightarrow> string \<Rightarrow> 'i reconfigurableVision \<Rightarrow> error + Detection list" where
  "Service_GetDetectionsFromCamera cameraName detectorName (VisionService vs) =
     visionService_GetDetectionsFromCamera cameraName detectorName vs"
| "Service_GetDetectionsFromCamera cameraName detectorName (ReconfigurableVision svc) =
     reconfigurableVision_GetDetectionsFromCamera cameraName detectorName svc"
| "reconfigurableVision_GetDetectionsFromCamera cameraName detectorName (Shim a) =
     Service_GetDetectionsFromCamera cameraName detectorName a"

primrec Service_GetDetections :: "'i \<Rightarrow> string \<Rightarrow> 'i Service \<Rightarrow> error + Detection list"
  and reconfigurableVision_GetDetections ::
    "'i \<Rightarrow> string \<Rightarrow> 'i reconfigurableVision \<Rightarrow> error + Detection list" where
  "Service_GetDetections img detectorName (VisionService vs) =
     visionService_GetDetections img detectorName vs"
| "Service_GetDetections img detectorName (ReconfigurableVision svc) =
     reconfigurableVision_GetDetections img detectorName svc"
| "reconfigurableVision_GetDetections img detectorName (Shim a) =
     Service_GetDetections img detectorName a"

primrec Service_GetClassifierNames :: "'i Service \<Rightarrow> error + string list"
  and reconfigurableVision_GetClassifierNames :: "'i reconfigurableVision \<Rightarrow> error + string list" where
  "Service_GetClassifierNames (VisionService vs) = visionService_GetClassifierNames vs"
| "Service_GetClassifierNames (ReconfigurableVision svc) = reconfigurableVision_GetClassifierNames svc"
| "reconfigurableVision_GetClassifierNames (Shim a) = Service_GetClassifierNames a"

primrec Service_AddClassifier ::
    "'i Globals \<Rightarrow> VisModelConfig \<Rightarrow> 'i Service \<Rightarrow> 'i Service \<times> error option"
  and reconfigurableVision_AddClassifier ::
    "'i Globals \<Rightarrow> VisModelConfig \<Rightarrow> 'i reconfigurableVision \<Rightarrow> 'i reconfigurableVision \<times> error option" where
  "Service_AddClassifier g cfg (VisionService vs) =
     map_prod VisionService id (visionService_AddClassifier g cfg vs)"
| "Service_AddClassifier g cfg (ReconfigurableVision svc) =
     map_prod ReconfigurableVision id (reconfigurableVision_AddClassifier g cfg svc)"
| "reconfigurableVision_AddClassifier g cfg (Shim a) =
     map_prod Shim id (Service_AddClassifier g cfg a)"

text \<open>
  \<^verbatim>\<open>reconfigurableVision.RemoveClassifier\<close> returns
  \<^verbatim>\<open>svc.actual.RemoveDetector(ctx, classifierName)\<close>: the dispatch of its last equation
  is \<open>Service_RemoveDetector\<close>, as in the source.
\<close>

primrec Service_RemoveClassifier :: "string \<Rightarrow> 'i Service \<Rightarrow> 'i Service \<times> error option"
  and reconfigurableVision_RemoveClassifier ::
    "string \<Rightarrow> 'i reconfigurableVision \<Rightarrow> 'i reconfigurableVision \<times> error option" where
  "Service_RemoveClassifier classifierName (VisionService vs) =
     map_prod VisionService id (visionService_RemoveClassifier classifierName vs)"
| "Service_RemoveClassifier classifierName (ReconfigurableVision svc) =
     map_prod ReconfigurableVision id (reconfigurableVision_RemoveClassifier classifierName svc)"
| "reconfigurableVision_RemoveClassifier classifierName (Shim a) =
     map_prod Shim id (Service_RemoveDetector classifierName a)"

primrec Service_GetClassificationsFromCamera ::
    "string \<Rightarrow> string \<Rightarrow> int \<Rightarrow> 'i Service \<Rightarrow> error + Classifications"
  and reconfigurableVision_GetClassificationsFromCamera ::
    "string \<Rightarrow> string \<Rightarrow> int \<Rightarrow> 'i reconfigurableVision \<Rightarrow> error + Classifications" where
  "Service_GetClassificationsFromCamera cameraName classifierName n (VisionService vs) =
     visionService_GetClassificationsFromCamera cameraName classifierName n vs"
| "Service_GetClassificationsFromCamera cameraName classifierName n (ReconfigurableVision svc) =
     reconfigurableVision_GetClassificationsFromCamera cameraName classifierName n svc"
| "reconfigurableVision_GetClassificationsFromCamera cameraName classifierName n (Shim a) =
     Service_GetClassificationsFromCamera cameraName classifierName n a"

primrec Service_GetClassifications ::
    "'i \<Rightarrow> string \<Rightarrow> int \<Rightarrow> 'i Service \<Rightarrow> error + Classifications"
  and reconfigurableVision_GetClassifications ::
    "'i \<Rightarrow> string \<Rightarrow> int \<Rightarrow> 'i reconfigurableVision \<Rightarrow> error + Classifications" where
  "Service_GetClassifications img classifierName n (VisionService vs) =
     visionService_GetClassifications img classifierName n vs"
| "Service_GetClassifications img classifierName n (ReconfigurableVision svc) =
     reconfigurableVision_GetClassifications img classifierName n svc"
| "reconfigurableVision_GetClassifications img classifierName n (Shim a) =
     Service_GetClassifications img classifierName n a"

primrec Service_GetSegmenterNames :: "'i Service \<Rightarrow> error + string list"
  and reconfigurableVision_GetSegmenterNames :: "'i reconfigurableVision \<Rightarrow> error + string list" where
  "Service_GetSegmenterNames (VisionService vs) = visionService_GetSegmenterNames vs"
| "Service_GetSegmenterNames (ReconfigurableVision svc) = reconfigurableVision_GetSegmenterNames svc"
| "reconfigurableVision_GetSegmenterNames (Shim a) = Service_GetSegmenterNames a"

primrec Service_AddSegmenter ::
    "'i Globals \<Rightarrow> VisModelConfig \<Rightarrow> 'i Service \<Rightarrow> 'i Service \<times> error option"
  and reconfigurableVision_AddSegmenter ::
    "'i Globals \<Rightarrow> VisModelConfig \<Rightarrow> 'i reconfigurableVision \<Rightarrow> 'i reconfigurableVision \<times> error option" where
  "Service_AddSegmenter g cfg (VisionService vs) =
     map_prod VisionService id (visionService_AddSegmenter g cfg vs)"
| "Service_AddSegmenter g cfg (ReconfigurableVision svc) =
     map_prod ReconfigurableVision id (reconfigurableVision_AddSegmenter g cfg svc)"
| "reconfigurableVision_AddSegmenter g cfg (Shim a) =
     map_prod Shim id (Service_AddSegmenter g cfg a)"

primrec Service_RemoveSegmenter :: "string \<Rightarrow> 'i Service \<Rightarrow> 'i Service \<times> error option"
  and reconfigurableVision_RemoveSegmenter ::
    "string \<Rightarrow> 'i reconfigurableVision \<Rightarrow> 'i reconfigurableVision \<times> error option" where
  "Service_RemoveSegmenter segmenterName (VisionService vs) =
     map_prod VisionService id (visionService_RemoveSegmenter segmenterName vs)"
| "Service_RemoveSegmenter segmenterName (ReconfigurableVision svc) =
     map_prod ReconfigurableVision id (reconfigurableVision_RemoveSegmenter segmenterName svc)"
| "reconfigurableVision_RemoveSegmenter segmenterName (Shim a) =
     map_prod Shim id (Service_RemoveSegmenter segmenterName a)"

primrec Service_GetObjectPointClouds ::
    "string \<Rightarrow> string \<Rightarrow> 'i Service \<Rightarrow> error + Object list"
  and reconfigurableVision_GetObjectPointClouds ::
    "string \<Rightarrow> string \<Rightarrow> 'i reconfigurableVision \<Rightarrow> error + Object list" where
  "Service_GetObjectPointClouds cameraName segmenterName (VisionService vs) =
     visionService_GetObjectPointClouds cameraName segmenterName vs"
| "Service_GetObjectPointClouds cameraName segmenterName (ReconfigurableVision svc) =
     reconfigurableVision_GetObjectPointClouds cameraName segmenterName svc"
| "reconfigurableVision_GetObjectPointClouds cameraName segmenterName (Shim a) =
     Service_GetObjectPointClouds cameraName segmenterName a"

text \<open>
  \<^verbatim>\<open>goutils.TryClose\<close> is library code outside the repository: it calls the method
  \<^verbatim>\<open>Close\<close> of its target when the target has one. Both implementations of
  \<open>Service\<close> have one; the shim's \<^verbatim>\<open>Close\<close> is \<^verbatim>\<open>goutils.TryClose(ctx, svc.actual)\<close>.
\<close>

primrec TryClose :: "'i Service \<Rightarrow> 'i Service \<times> error option"
  and reconfigurableVision_Close ::
    "'i reconfigurableVision \<Rightarrow> 'i reconfigurableVision \<times> error option" where
  "TryClose (VisionService vs) = map_prod VisionService id (visionService_Close vs)"
| "TryClose (ReconfigurableVision svc) = map_prod ReconfigurableVision id (reconfigurableVision_Close svc)"
| "reconfigurableVision_Close (Shim a) = map_prod Shim id (TryClose a)"

text \<open>
  \<^verbatim>\<open>Reconfigure\<close>. The result is the shim afterwards, what \<^verbatim>\<open>rlog.Logger.Errorw\<close> was
  given (the message and the error), and the returned error. The old actual is closed
  and then dropped by the assignment \<^verbatim>\<open>svc.actual = rSvc.actual\<close>.
\<close>

definition reconfigurableVision_Reconfigure ::
  "'i object \<Rightarrow> 'i reconfigurableVision \<Rightarrow> 'i reconfigurableVision \<times> (string \<times> error) list \<times> error option" where
  "reconfigurableVision_Reconfigure newSvc svc =
     (case asReconfigurableVision newSvc of
        None \<Rightarrow>
          (svc, [], Some (NewUnexpectedTypeError (ServiceObject (ReconfigurableVision svc)) newSvc))
      | Some rSvc \<Rightarrow>
          (let logged = (case snd (TryClose (actual svc)) of
                           Some err \<Rightarrow> [(''error closing old'', err)]
                         | None \<Rightarrow> [])
           in (Shim (actual rSvc), logged, None)))"

text \<open>\<^verbatim>\<open>WrapWithReconfigurable\<close>.\<close>

definition WrapWithReconfigurable :: "'i object \<Rightarrow> error + 'i reconfigurableVision" where
  "WrapWithReconfigurable s =
     (case asService s of
        None \<Rightarrow> Inl (NewUnimplementedInterfaceError s)
      | Some svc \<Rightarrow>
          (case asReconfigurableVision s of
             Some reconfigurable \<Rightarrow> Inr reconfigurable
           | None \<Rightarrow> Inr (Shim svc)))"

subsection \<open>Properties the theorems state\<close>

text \<open>
  The assumption under which the companion model of a detector is listed as a
  segmenter: the factory registered under the tag \<^verbatim>\<open>DetectorSegmenter\<close>, which is not
  among the sources, builds models of kind \<open>Segmenter\<close>.
\<close>

definition buildsSegmenters :: "'i Globals \<Rightarrow> bool" where
  "buildsSegmenters g \<longleftrightarrow>
     (\<forall>build mm cfg m. factories g (DetectorSegmenter g) = Some build \<longrightarrow>
        build mm cfg = Inr m \<longrightarrow> kind m = Segmenter)"

text \<open>
  The top-n reduction of a classification output \<open>full\<close>: \<open>min n (length full)\<close>
  entries of \<open>full\<close>, in order of non-increasing confidence, such that no entry left
  out has a higher confidence than an entry kept.
\<close>

definition isTopN :: "int \<Rightarrow> Classifications \<Rightarrow> Classifications \<Rightarrow> bool" where
  "isTopN n full res \<longleftrightarrow>
     int (length res) = min n (int (length full))
   \<and> sorted_wrt (\<lambda>a b. Score b \<le> Score a) res
   \<and> (\<exists>rest. mset (res @ rest) = mset full \<and> (\<forall>a\<in>set res. \<forall>b\<in>set rest. Score b \<le> Score a))"

subsection \<open>Example values\<close>

text \<open>
  Concrete models, registries and services at the image type \<open>unit\<close>, on which the
  theorems below are instantiated.
\<close>

definition exDetector :: "unit Model" where
  "exDetector = \<lparr>adapter = DetectorFn (\<lambda>img. Inr []), closer = None\<rparr>"

definition exFull :: Classifications where
  "exFull = [\<lparr>Label = ''cat'', Score = 2\<rparr>, \<lparr>Label = ''dog'', Score = 7\<rparr>, \<lparr>Label = ''owl'', Score = 1\<rparr>]"

definition exClassifier :: "unit Model" where
  "exClassifier = \<lparr>adapter = ClassifierFn (\<lambda>img. Inr exFull), closer = None\<rparr>"

definition exSegmenter :: "unit Model" where
  "exSegmenter = \<lparr>adapter = SegmenterFn (\<lambda>cam. Inr []), closer = None\<rparr>"

definition exBusy :: "unit Model" where
  "exBusy = \<lparr>adapter = DetectorFn (\<lambda>img. Inr []), closer = Some (Some (UpstreamFailure ''engine busy''))\<rparr>"

definition noCameras :: "unit CameraRobot" where
  "noCameras = (\<lambda>name. Inl (UpstreamFailure ''no camera''))"

definition exService :: "unit visionService" where
  "exService = \<lparr>robot = noCameras, modReg = [(''c1'', exClassifier), (''c1_segmenter'', exSegmenter)]\<rparr>"


definition exBusyService :: "unit visionService" where
  "exBusyService = \<lparr>robot = noCameras, modReg = [(''d1'', exBusy)]\<rparr>"

definition exRobot :: "unit Robot" where
  "exRobot = (\<lambda>n. if n = Named ''vision1'' then Inr (ServiceObject (VisionService exService))
                   else if n = Named ''arm1'' then Inr (OtherObject ''*arm.reconfigurableArm'')
                   else Inl (UpstreamFailure ''resource not found''))"

definition exMixed :: "unit visionService" where
  "exMixed = \<lparr>robot = noCameras,
              modReg = [(''d1'', exDetector), (''c1'', exClassifier), (''s1'', exSegmenter)]\<rparr>"

definition exMixedBusy :: "unit visionService" where
  "exMixedBusy = \<lparr>robot = noCameras,
                  modReg = [(''c1'', exClassifier), (''d1'', exBusy), (''s1'', exSegmenter)]\<rparr>"


definition exGlobals :: "unit Globals" where
  "exGlobals =
     \<lparr>factories = [''color_detector'' \<mapsto> (\<lambda>mm cfg. Inr exDetector),
                   ''detector_segmenter'' \<mapsto> (\<lambda>mm cfg. Inr exSegmenter)],
      DetectorSegmenter = ''detector_segmenter''\<rparr>"

definition exGlobalsFailing :: "unit Globals" where
  "exGlobalsFailing =
     \<lparr>factories = [''color_detector'' \<mapsto> (\<lambda>mm cfg. Inr exDetector),
                   ''detector_segmenter'' \<mapsto> (\<lambda>mm cfg. Inl (UpstreamFailure ''no point cloud''))],
      DetectorSegmenter = ''detector_segmenter''\<rparr>"

definition exConfig :: VisModelConfig where
  "exConfig = \<lparr>Name = ''d1'', Type = ''color_detector'', Parameters = []\<rparr>"

definition exEmpty :: "unit visionService" where
  "exEmpty = \<lparr>robot = noCameras, modReg = []\<rparr>"

definition exCamService :: "unit visionService" where
  "exCamService =
     \<lparr>robot = (\<lambda>name. if name = ''cam1'' then Inr (Inr ()) else Inl (UpstreamFailure ''no camera'')),
      modReg = [(''c1'', exClassifier)]\<rparr>"

section \<open>Theorems\<close>

text \<open>
  C1. Every delegated operation of the shim calls the operation of the same name on the
  current actual service and returns its result; in particular \<^verbatim>\<open>RemoveClassifier\<close> on
  the shim removes that classifier and nothing else. The shim's \<^verbatim>\<open>RemoveClassifier\<close>
  calls \<^verbatim>\<open>RemoveDetector\<close> on the actual service instead: on a service that holds the
  classifier \<open>c1\<close> and a segmenter \<open>c1_segmenter\<close>, the call through the shim empties
  the registry, while \<^verbatim>\<open>RemoveClassifier\<close> on the actual service itself leaves the
  segmenter registered.
\<close>

theorem reconfigurableVision_RemoveClassifier_diverges:
  "reconfigurableVision_RemoveClassifier ''c1'' (Shim (VisionService exService)) =
     (Shim (VisionService (exService\<lparr>modReg := []\<rparr>)), None)
   \<and> Service_RemoveClassifier ''c1'' (VisionService exService) =
     (VisionService (exService\<lparr>modReg := [(''c1_segmenter'', exSegmenter)]\<rparr>), None)
   \<and> reconfigurableVision_RemoveClassifier ''c1'' (Shim (VisionService exService)) \<noteq>
     map_prod Shim id (Service_RemoveClassifier ''c1'' (VisionService exService))"
  by (simp add: exService_def visionService_RemoveDetector_def visionService_RemoveSegmenter_def
      visionService_RemoveClassifier_def removeVisModel_def exClassifier_def exSegmenter_def
      release_def)

text \<open>
  C3. \<^verbatim>\<open>Reconfigure\<close> fails with the type error when its argument is not a
  \<^verbatim>\<open>*reconfigurableVision\<close>, and the shim is then unchanged. Otherwise it installs the
  actual of the argument and returns no error; an error of closing the old actual is
  given to the logger and is not returned.
\<close>

theorem Reconfigure_swaps:
  "(asReconfigurableVision newSvc = None \<longrightarrow>
      reconfigurableVision_Reconfigure newSvc svc =
        (svc, [], Some (UnexpectedTypeError ''*vision.reconfigurableVision'' (concreteKind newSvc))))
   \<and> (\<forall>rSvc. asReconfigurableVision newSvc = Some rSvc \<longrightarrow>
         fst (reconfigurableVision_Reconfigure newSvc svc) = Shim (actual rSvc)
       \<and> snd (snd (reconfigurableVision_Reconfigure newSvc svc)) = None
       \<and> (\<forall>e. snd (TryClose (actual svc)) = Some e \<longrightarrow>
             fst (snd (reconfigurableVision_Reconfigure newSvc svc)) = [(''error closing old'', e)]))"
  by (simp add: reconfigurableVision_Reconfigure_def NewUnexpectedTypeError_def)

theorem Reconfigure_swaps_witness:
  "reconfigurableVision_Reconfigure (OtherObject ''*arm.reconfigurableArm'') (Shim (VisionService exBusyService)) =
     (Shim (VisionService exBusyService), [],
      Some (UnexpectedTypeError ''*vision.reconfigurableVision'' ''*arm.reconfigurableArm''))
   \<and> fst (reconfigurableVision_Reconfigure (ServiceObject (ReconfigurableVision (Shim (VisionService exService))))
        (Shim (VisionService exBusyService))) = Shim (VisionService exService)
   \<and> snd (snd (reconfigurableVision_Reconfigure (ServiceObject (ReconfigurableVision (Shim (VisionService exService))))
        (Shim (VisionService exBusyService)))) = None
   \<and> fst (snd (reconfigurableVision_Reconfigure (ServiceObject (ReconfigurableVision (Shim (VisionService exService))))
        (Shim (VisionService exBusyService)))) = [(''error closing old'', UpstreamFailure ''engine busy'')]"
proof -
  have close: "snd (TryClose (actual (Shim (VisionService exBusyService)))) = Some (UpstreamFailure ''engine busy'')"
    by (simp add: exBusyService_def visionService_Close_def modelNames_def removeVisModel_def
        exBusy_def release_def)
  have no: "asReconfigurableVision (OtherObject ''*arm.reconfigurableArm'' :: unit object) = None"
    by simp
  have yes: "asReconfigurableVision (ServiceObject (ReconfigurableVision (Shim (VisionService exService)))) =
      Some (Shim (VisionService exService))"
    by simp
  from Reconfigure_swaps[of "OtherObject ''*arm.reconfigurableArm''" "Shim (VisionService exBusyService)"] no
  have a: "reconfigurableVision_Reconfigure (OtherObject ''*arm.reconfigurableArm'') (Shim (VisionService exBusyService)) =
     (Shim (VisionService exBusyService), [],
      Some (UnexpectedTypeError ''*vision.reconfigurableVision'' ''*arm.reconfigurableArm''))"
    by simp
  from Reconfigure_swaps[of "ServiceObject (ReconfigurableVision (Shim (VisionService exService)))"
      "Shim (VisionService exBusyService)"] yes close
  have b: "fst (reconfigurableVision_Reconfigure (ServiceObject (ReconfigurableVision (Shim (VisionService exService))))
        (Shim (VisionService exBusyService))) = Shim (VisionService exService)
   \<and> snd (snd (reconfigurableVision_Reconfigure (ServiceObject (ReconfigurableVision (Shim (VisionService exService))))
        (Shim (VisionService exBusyService)))) = None
   \<and> fst (snd (reconfigurableVision_Reconfigure (ServiceObject (ReconfigurableVision (Shim (VisionService exService))))
        (Shim (VisionService exBusyService)))) = [(''error closing old'', UpstreamFailure ''engine busy'')]"
    by simp
  from a b show ?thesis by blast
qed

text \<open>
  C7. \<^verbatim>\<open>FromRobot\<close> fails with the not-found error for the name when the robot has no
  resource of that name, fails with the unimplemented-interface error that names the
  concrete kind of the resource when the resource is not a \<open>Service\<close>, and returns the
  service otherwise.
\<close>

theorem FromRobot_resolves:
  "(\<forall>e. r (Named name) = Inl e \<longrightarrow> FromRobot r name = Inl (ResourceNotFoundError (Named name)))
   \<and> (\<forall>res. r (Named name) = Inr res \<and> asService res = None \<longrightarrow>
         FromRobot r name = Inl (UnimplementedInterfaceError (concreteKind res)))
   \<and> (\<forall>res svc. r (Named name) = Inr res \<and> asService res = Some svc \<longrightarrow> FromRobot r name = Inr svc)"
  by (simp add: FromRobot_def NewUnimplementedInterfaceError_def)

theorem FromRobot_resolves_witness:
  "FromRobot exRobot ''nobody'' = Inl (ResourceNotFoundError (Named ''nobody''))
   \<and> FromRobot exRobot ''arm1'' = Inl (UnimplementedInterfaceError ''*arm.reconfigurableArm'')
   \<and> FromRobot exRobot ''vision1'' = Inr (VisionService exService)"
proof -
  have 1: "exRobot (Named ''nobody'') = Inl (UpstreamFailure ''resource not found'')"
    by (simp add: exRobot_def Named_def)
  have 2: "exRobot (Named ''arm1'') = Inr (OtherObject ''*arm.reconfigurableArm'')"
    by (simp add: exRobot_def Named_def)
  have 3: "exRobot (Named ''vision1'') = Inr (ServiceObject (VisionService exService))"
    by (simp add: exRobot_def Named_def)
  from FromRobot_resolves[of exRobot "''nobody''"] 1
  have a: "FromRobot exRobot ''nobody'' = Inl (ResourceNotFoundError (Named ''nobody''))"
    by blast
  from FromRobot_resolves[of exRobot "''arm1''"] 2
  have b: "FromRobot exRobot ''arm1'' = Inl (UnimplementedInterfaceError ''*arm.reconfigurableArm'')"
    by fastforce
  from FromRobot_resolves[of exRobot "''vision1''"] 3
  have c: "FromRobot exRobot ''vision1'' = Inr (VisionService exService)"
    by fastforce
  from a b c show ?thesis by blast
qed

text \<open>
  C9. \<^verbatim>\<open>GetModelParameterSchema\<close> returns the schema of a type-tag that is registered
  with a schema, and fails with the error that names the type-tag when the tag is not
  registered. As amended: it fails in the same way when the tag is registered with a
  \<^verbatim>\<open>nil\<close> schema, which the code tests for.
\<close>

theorem GetModelParameterSchema_registered:
  "(\<forall>schema. tab t = Some (Some schema) \<longrightarrow> visionService_GetModelParameterSchema tab t = Inr schema)
   \<and> (tab t = Some None \<or> tab t = None \<longrightarrow>
         visionService_GetModelParameterSchema tab t = Inl (NoSchemaError t))"
  by (auto simp: visionService_GetModelParameterSchema_def)

theorem GetModelParameterSchema_registered_witness:
  "visionService_GetModelParameterSchema [''radius_clustering'' \<mapsto> Some (5::nat)] ''radius_clustering'' = Inr 5
   \<and> visionService_GetModelParameterSchema [''radius_clustering'' \<mapsto> Some (5::nat)] ''tflite'' =
       Inl (NoSchemaError ''tflite'')"
  using GetModelParameterSchema_registered[of "[''radius_clustering'' \<mapsto> Some (5::nat)]" "''radius_clustering''"]
        GetModelParameterSchema_registered[of "[''radius_clustering'' \<mapsto> Some (5::nat)]" "''tflite''"]
  by simp

text \<open>
  The claim as first stated fails on a table in which the tag is a key with a \<^verbatim>\<open>nil\<close>
  schema: the tag is registered, and the call fails.
\<close>

theorem GetModelParameterSchema_nil_counterexample:
  "[''color_detector'' \<mapsto> None] ''color_detector'' \<noteq> (None :: nat option option)
   \<and> visionService_GetModelParameterSchema [''color_detector'' \<mapsto> None] ''color_detector'' =
       (Inl (NoSchemaError ''color_detector'') :: error + nat)"
  by (simp add: visionService_GetModelParameterSchema_def)

text \<open>
  C10. \<^verbatim>\<open>WrapWithReconfigurable\<close> returns a value that is already a shim as it is,
  so wrapping the result of a wrap again changes nothing; it fails with the
  unimplemented-interface error on a value that is not a \<open>Service\<close>.
\<close>

theorem WrapWithReconfigurable_idempotent:
  "WrapWithReconfigurable (ServiceObject (ReconfigurableVision svc)) = Inr svc
   \<and> (asService s = None \<longrightarrow>
         WrapWithReconfigurable s = Inl (UnimplementedInterfaceError (concreteKind s)))
   \<and> (\<forall>w. WrapWithReconfigurable s = Inr w \<longrightarrow>
         WrapWithReconfigurable (ServiceObject (ReconfigurableVision w)) = Inr w)"
  by (simp add: WrapWithReconfigurable_def NewUnimplementedInterfaceError_def)

theorem WrapWithReconfigurable_idempotent_witness:
  "WrapWithReconfigurable (OtherObject ''*arm.reconfigurableArm'' :: unit object) =
     Inl (UnimplementedInterfaceError ''*arm.reconfigurableArm'')
   \<and> WrapWithReconfigurable (ServiceObject (VisionService exService)) = Inr (Shim (VisionService exService))
   \<and> WrapWithReconfigurable (ServiceObject (ReconfigurableVision (Shim (VisionService exService)))) =
       Inr (Shim (VisionService exService))"
proof -
  have w: "WrapWithReconfigurable (ServiceObject (VisionService exService)) = Inr (Shim (VisionService exService))"
    by (simp add: WrapWithReconfigurable_def)
  from WrapWithReconfigurable_idempotent[of "Shim (VisionService exService)" "OtherObject ''*arm.reconfigurableArm'' :: unit object"]
  have a: "WrapWithReconfigurable (OtherObject ''*arm.reconfigurableArm'' :: unit object) =
     Inl (UnimplementedInterfaceError ''*arm.reconfigurableArm'')"
    by simp
  from WrapWithReconfigurable_idempotent[of "Shim (VisionService exService)" "ServiceObject (VisionService exService)"] w
  have b: "WrapWithReconfigurable (ServiceObject (ReconfigurableVision (Shim (VisionService exService)))) =
       Inr (Shim (VisionService exService))"
    by blast
  from a w b show ?thesis by blast
qed

subsection \<open>The registry: teardown and the detector cascade\<close>

lemma removeVisModel_head:
  "n \<notin> fst ` set rest \<Longrightarrow> release m = None \<Longrightarrow> removeVisModel n ((n, m) # rest) = (rest, None)"
  by (simp add: removeVisModel_def)

lemma removeVisModel_head_fail:
  "release m = Some e \<Longrightarrow> removeVisModel n ((n, m) # rest) = ((n, m) # rest, Some e)"
  by (simp add: removeVisModel_def)

lemma Close_loop_dropWhile:
  "distinct (map fst mm) \<Longrightarrow>
   Close_loop (map fst mm) mm =
     (dropWhile (\<lambda>p. release (snd p) = None) mm,
      case dropWhile (\<lambda>p. release (snd p) = None) mm of [] \<Rightarrow> None | p # qs \<Rightarrow> release (snd p))"
proof (induction mm)
  case Nil
  then show ?case by simp
next
  case (Cons a mm)
  obtain n m where a: "a = (n, m)" by (cases a)
  from Cons.prems a have notin: "n \<notin> fst ` set mm" and dist: "distinct (map fst mm)" by auto
  show ?case
  proof (cases "release m")
    case None
    with notin have "removeVisModel n ((n, m) # mm) = (mm, None)"
      by (simp add: removeVisModel_head)
    with None a Cons.IH[OF dist] show ?thesis by simp
  next
    case (Some e)
    then have "removeVisModel n ((n, m) # mm) = ((n, m) # mm, Some e)"
      by (rule removeVisModel_head_fail)
    with Some a show ?thesis by simp
  qed
qed

lemma namesOfKind_Nil: "namesOfKind k [] = []"
  by (simp add: namesOfKind_def)

lemma dropWhile_decomp:
  "dropWhile P xs = y # ys \<Longrightarrow> xs = takeWhile P xs @ y # ys \<and> (\<forall>p\<in>set (takeWhile P xs). P p) \<and> \<not> P y"
proof -
  assume d: "dropWhile P xs = y # ys"
  have "xs = takeWhile P xs @ dropWhile P xs" by simp
  with d have 1: "xs = takeWhile P xs @ y # ys" by simp
  have 2: "\<forall>p\<in>set (takeWhile P xs). P p" by (auto dest: set_takeWhileD)
  from d have 3: "\<not> P y" by (metis hd_dropWhile list.sel(1) list.distinct(1))
  from 1 2 3 show ?thesis by blast
qed

lemma Close_result:
  "distinct (map fst (modReg vs)) \<Longrightarrow>
   visionService_Close vs =
      (vs\<lparr>modReg := dropWhile (\<lambda>p. release (snd p) = None) (modReg vs)\<rparr>,
       case dropWhile (\<lambda>p. release (snd p) = None) (modReg vs) of [] \<Rightarrow> None | p # qs \<Rightarrow> release (snd p))"
  by (simp add: visionService_Close_def modelNames_def Close_loop_dropWhile)


text \<open>
  C5. \<^verbatim>\<open>Close\<close> removes the registered models one after the other, in the order of
  \<^verbatim>\<open>modelNames\<close>. When no removal fails, \<^verbatim>\<open>Close\<close> returns no error and leaves the
  registry empty, so that the detector, classifier and segmenter name lists are empty.
  When the removals of the models \<open>ps\<close> succeed and the removal of the next model fails
  with \<open>e\<close>, the loop stops there: \<^verbatim>\<open>Close\<close> returns \<open>e\<close>, the models \<open>ps\<close> are
  gone, and the failing model and the models \<open>qs\<close> not yet processed are still
  registered. Conversely, a \<^verbatim>\<open>Close\<close> that returns no error has emptied the three
  name lists, and one that returns \<open>e\<close> has stopped at such a first failure.
\<close>

theorem Close_removes_until_first_failure:
  assumes wf: "wf_modelMap (modReg vs)"
  shows "((\<forall>p\<in>set (modReg vs). release (snd p) = None) \<longrightarrow>
           visionService_Close vs = (vs\<lparr>modReg := []\<rparr>, None))
       \<and> (\<forall>ps n m qs e.
            modReg vs = ps @ (n, m) # qs \<and> (\<forall>p\<in>set ps. release (snd p) = None) \<and> release m = Some e \<longrightarrow>
              visionService_Close vs = (vs\<lparr>modReg := (n, m) # qs\<rparr>, Some e)
            \<and> (\<forall>p\<in>set ps. fst p \<notin> set (modelNames (modReg (fst (visionService_Close vs)))))
            \<and> set qs \<subseteq> set (modReg (fst (visionService_Close vs))))
       \<and> (snd (visionService_Close vs) = None \<longrightarrow>
           DetectorNames (modReg (fst (visionService_Close vs))) = []
         \<and> ClassifierNames (modReg (fst (visionService_Close vs))) = []
         \<and> SegmenterNames (modReg (fst (visionService_Close vs))) = [])
       \<and> (\<forall>e. snd (visionService_Close vs) = Some e \<longrightarrow>
            (\<exists>ps n m qs. modReg vs = ps @ (n, m) # qs
               \<and> (\<forall>p\<in>set ps. release (snd p) = None
                               \<and> fst p \<notin> set (modelNames (modReg (fst (visionService_Close vs)))))
               \<and> release m = Some e
               \<and> set qs \<subseteq> set (modReg (fst (visionService_Close vs)))))"
proof -
  define d where "d = dropWhile (\<lambda>p. release (snd p) = None) (modReg vs)"
  from wf have dist: "distinct (map fst (modReg vs))" by (simp add: wf_modelMap_def)
  have cl: "visionService_Close vs =
      (vs\<lparr>modReg := d\<rparr>, case d of [] \<Rightarrow> None | p # qs \<Rightarrow> release (snd p))"
    unfolding d_def by (rule Close_result[OF dist])
  have fst_cl: "modReg (fst (visionService_Close vs)) = d" by (simp add: cl)
  have F1: "visionService_Close vs = (vs\<lparr>modReg := []\<rparr>, None)"
    if ok: "\<forall>p\<in>set (modReg vs). release (snd p) = None"
  proof -
    from ok have "d = []" unfolding d_def by simp
    then show ?thesis by (simp add: cl)
  qed
  have F2: "visionService_Close vs = (vs\<lparr>modReg := (n, m) # qs\<rparr>, Some e)
            \<and> (\<forall>p\<in>set ps. fst p \<notin> set (modelNames d))
            \<and> set qs \<subseteq> set d"
    if dec: "modReg vs = ps @ (n, m) # qs" and ok: "\<forall>p\<in>set ps. release (snd p) = None"
      and rel: "release m = Some e" for ps n m qs e
  proof -
    from ok have "d = dropWhile (\<lambda>p. release (snd p) = None) ((n, m) # qs)"
      unfolding d_def dec by (simp add: dropWhile_append2)
    with rel have d: "d = (n, m) # qs" by simp
    from dist dec have "fst ` set ps \<inter> fst ` set ((n, m) # qs) = {}"
      by simp
    then have "\<forall>p\<in>set ps. fst p \<notin> fst ` set ((n, m) # qs)"
      by blast
    then have gone: "\<forall>p\<in>set ps. fst p \<notin> set (modelNames d)"
      by (simp add: modelNames_def d)
    have rest: "set qs \<subseteq> set d" unfolding d by auto
    from rel have "visionService_Close vs = (vs\<lparr>modReg := (n, m) # qs\<rparr>, Some e)"
      by (simp add: cl d)
    with gone rest show ?thesis by blast
  qed
  have A: "d = []" if n: "snd (visionService_Close vs) = None"
  proof (cases d)
    case Nil
    then show ?thesis .
  next
    case (Cons y ys)
    then have "release (snd y) \<noteq> None"
      unfolding d_def by (blast dest: dropWhile_decomp)
    with n show ?thesis by (simp add: cl Cons)
  qed
  have B: "\<exists>ps n m qs. modReg vs = ps @ (n, m) # qs
               \<and> (\<forall>p\<in>set ps. release (snd p) = None \<and> fst p \<notin> set (modelNames d))
               \<and> release m = Some e
               \<and> set qs \<subseteq> set d"
    if e: "snd (visionService_Close vs) = Some e" for e
  proof (cases d)
    case Nil
    with e show ?thesis by (simp add: cl)
  next
    case (Cons y ys)
    obtain n m where y: "y = (n, m)" by (cases y)
    from Cons obtain ps where
      ps: "modReg vs = ps @ y # ys" and ok: "\<forall>p\<in>set ps. release (snd p) = None"
      unfolding d_def by (blast dest: dropWhile_decomp)
    from e have rel: "release m = Some e" by (simp add: cl Cons y)
    from ps y have dec: "modReg vs = ps @ (n, m) # ys" by simp
    from F2[OF dec ok rel] have gone: "\<forall>p\<in>set ps. fst p \<notin> set (modelNames d)" by blast
    have rest: "set ys \<subseteq> set d" unfolding Cons by auto
    from dec ok gone rel rest show ?thesis by blast
  qed
  show ?thesis
  proof (intro conjI impI allI)
    assume "\<forall>p\<in>set (modReg vs). release (snd p) = None"
    then show "visionService_Close vs = (vs\<lparr>modReg := []\<rparr>, None)" by (rule F1)
  next
    fix ps n m qs e
    assume a: "modReg vs = ps @ (n, m) # qs \<and> (\<forall>p\<in>set ps. release (snd p) = None) \<and> release m = Some e"
    then have dec: "modReg vs = ps @ (n, m) # qs" and ok: "\<forall>p\<in>set ps. release (snd p) = None"
      and rel: "release m = Some e"
      by blast+
    from F2[OF dec ok rel]
    show "visionService_Close vs = (vs\<lparr>modReg := (n, m) # qs\<rparr>, Some e)"
      and "\<forall>p\<in>set ps. fst p \<notin> set (modelNames (modReg (fst (visionService_Close vs))))"
      and "set qs \<subseteq> set (modReg (fst (visionService_Close vs)))"
      unfolding fst_cl by blast+
  next
    assume "snd (visionService_Close vs) = None"
    then have "d = []" by (rule A)
    then show "DetectorNames (modReg (fst (visionService_Close vs))) = []"
      and "ClassifierNames (modReg (fst (visionService_Close vs))) = []"
      and "SegmenterNames (modReg (fst (visionService_Close vs))) = []"
      by (simp_all add: fst_cl DetectorNames_def ClassifierNames_def SegmenterNames_def namesOfKind_Nil)
  next
    fix e assume "snd (visionService_Close vs) = Some e"
    then show "\<exists>ps n m qs. modReg vs = ps @ (n, m) # qs
               \<and> (\<forall>p\<in>set ps. release (snd p) = None
                               \<and> fst p \<notin> set (modelNames (modReg (fst (visionService_Close vs)))))
               \<and> release m = Some e
               \<and> set qs \<subseteq> set (modReg (fst (visionService_Close vs)))"
      unfolding fst_cl by (rule B)
  qed
qed

theorem Close_removes_until_first_failure_witness:
  "wf_modelMap (modReg exMixed)
   \<and> modReg exMixed = [(''d1'', exDetector), (''c1'', exClassifier), (''s1'', exSegmenter)]
   \<and> release exDetector = None \<and> release exSegmenter = None
   \<and> visionService_Close exMixed = (exMixed\<lparr>modReg := []\<rparr>, None)
   \<and> DetectorNames (modReg (fst (visionService_Close exMixed))) = []
   \<and> ClassifierNames (modReg (fst (visionService_Close exMixed))) = []
   \<and> SegmenterNames (modReg (fst (visionService_Close exMixed))) = []
   \<and> wf_modelMap (modReg exMixedBusy)
   \<and> modReg exMixedBusy = [(''c1'', exClassifier)] @ (''d1'', exBusy) # [(''s1'', exSegmenter)]
   \<and> release exClassifier = None
   \<and> release exBusy = Some (UpstreamFailure ''engine busy'')
   \<and> visionService_Close exMixedBusy =
        (exMixedBusy\<lparr>modReg := [(''d1'', exBusy), (''s1'', exSegmenter)]\<rparr>, Some (UpstreamFailure ''engine busy''))
   \<and> ''c1'' \<notin> set (modelNames (modReg (fst (visionService_Close exMixedBusy))))
   \<and> (''s1'', exSegmenter) \<in> set (modReg (fst (visionService_Close exMixedBusy)))"
proof -
  have wf1: "wf_modelMap (modReg exMixed)"
    by (simp add: wf_modelMap_def exMixed_def)
  have wf2: "wf_modelMap (modReg exMixedBusy)"
    by (simp add: wf_modelMap_def exMixedBusy_def)
  have r1: "release exDetector = None" and r2: "release exClassifier = None"
    and r3: "release exSegmenter = None" and r4: "release exBusy = Some (UpstreamFailure ''engine busy'')"
    by (simp_all add: release_def exDetector_def exClassifier_def exSegmenter_def exBusy_def)
  have all1: "\<forall>p\<in>set (modReg exMixed). release (snd p) = None"
    by (simp add: exMixed_def r1 r2 r3)
  have dec: "modReg exMixedBusy = [(''c1'', exClassifier)] @ (''d1'', exBusy) # [(''s1'', exSegmenter)]"
    by (simp add: exMixedBusy_def)
  have ok: "\<forall>p\<in>set [(''c1'', exClassifier)]. release (snd p) = None"
    by (simp add: r2)
  from Close_removes_until_first_failure[OF wf1] all1
  have c1: "visionService_Close exMixed = (exMixed\<lparr>modReg := []\<rparr>, None)"
    by blast
  then have n1: "snd (visionService_Close exMixed) = None" by simp
  from Close_removes_until_first_failure[OF wf1] n1
  have a: "DetectorNames (modReg (fst (visionService_Close exMixed))) = []
   \<and> ClassifierNames (modReg (fst (visionService_Close exMixed))) = []
   \<and> SegmenterNames (modReg (fst (visionService_Close exMixed))) = []"
    by blast
  from Close_removes_until_first_failure[OF wf2] dec ok r4
  have b: "visionService_Close exMixedBusy =
        (exMixedBusy\<lparr>modReg := (''d1'', exBusy) # [(''s1'', exSegmenter)]\<rparr>, Some (UpstreamFailure ''engine busy''))
     \<and> (\<forall>p\<in>set [(''c1'', exClassifier)]. fst p \<notin> set (modelNames (modReg (fst (visionService_Close exMixedBusy)))))
     \<and> set [(''s1'', exSegmenter)] \<subseteq> set (modReg (fst (visionService_Close exMixedBusy)))"
    by blast
  have m1: "(''c1'', exClassifier) \<in> set [(''c1'', exClassifier)]"
    and m2: "(''s1'', exSegmenter) \<in> set [(''s1'', exSegmenter)]"
    by simp_all
  from b have g: "\<forall>p\<in>set [(''c1'', exClassifier)]. fst p \<notin> set (modelNames (modReg (fst (visionService_Close exMixedBusy))))"
    and k: "set [(''s1'', exSegmenter)] \<subseteq> set (modReg (fst (visionService_Close exMixedBusy)))"
    by blast+
  from bspec[OF g m1] subsetD[OF k m2]
  have b': "''c1'' \<notin> set (modelNames (modReg (fst (visionService_Close exMixedBusy))))
     \<and> (''s1'', exSegmenter) \<in> set (modReg (fst (visionService_Close exMixedBusy)))"
    unfolding fst_conv by blast
  have reg1: "modReg exMixed = [(''d1'', exDetector), (''c1'', exClassifier), (''s1'', exSegmenter)]"
    by (simp add: exMixed_def)
  from wf1 reg1 r1 r3 c1 a wf2 dec r2 r4 b b' show ?thesis by blast
qed




lemma modelNames_delete_other: "k \<notin> set (modelNames mm) \<Longrightarrow> k \<notin> set (modelNames (AList.delete name mm))"
  by (simp add: modelNames_def delete_keys)





subsection \<open>Adding a detector, and classification\<close>

lemma registerNewVisModels_single:
  "registerNewVisModels g mm \<lparr>ModelRegistry = [cfg]\<rparr> =
     (case factories g (Type cfg) of
        None \<Rightarrow> (mm, Some (ValidationFailure (Type cfg)))
      | Some build \<Rightarrow>
          (case build mm cfg of
             Inl err \<Rightarrow> (mm, Some err)
           | Inr m \<Rightarrow> (AList.update (Name cfg) m mm, None)))"
  by (simp add: registerNewVisModels_def split: option.splits sum.splits)

lemma registerNewVisModels_single_ok:
  assumes "registerNewVisModels g mm \<lparr>ModelRegistry = [cfg]\<rparr> = (mm', None)"
  shows "\<exists>build m. factories g (Type cfg) = Some build \<and> build mm cfg = Inr m
            \<and> mm' = AList.update (Name cfg) m mm"
  using assms unfolding registerNewVisModels_single
  by (auto split: option.splits sum.splits)

lemma registerNewVisModels_single_failed:
  assumes "registerNewVisModels g mm \<lparr>ModelRegistry = [cfg]\<rparr> = (mm', Some e)"
  shows "mm' = mm"
  using assms unfolding registerNewVisModels_single
  by (auto split: option.splits sum.splits)

lemma update_mem: "(k, v) \<in> set (AList.update k v al)"
  by (induction al) auto

lemma modelNames_update: "set (modelNames (AList.update k v al)) = insert k (set (modelNames al))"
  using dom_update[of k v al] by (simp add: modelNames_def)

lemma namesOfKind_mem: "(k, m) \<in> set mm \<Longrightarrow> kind m = K \<Longrightarrow> k \<in> set (namesOfKind K mm)"
  by (force simp: namesOfKind_def)

lemma AddDetector_ok:
  assumes ok: "visionService_AddDetector g cfg vs = (vs', None)"
  shows "\<exists>build m build' s.
           factories g (Type cfg) = Some build \<and> build (modReg vs) cfg = Inr m
         \<and> factories g (DetectorSegmenter g) = Some build'
         \<and> build' (AList.update (Name cfg) m (modReg vs)) (segmenterConf g cfg) = Inr s
         \<and> modReg vs' = AList.update (Name cfg @ ''_segmenter'') s (AList.update (Name cfg) m (modReg vs))"
proof -
  obtain mm1 e1 where r1: "registerNewVisModels g (modReg vs) \<lparr>ModelRegistry = [cfg]\<rparr> = (mm1, e1)"
    by (cases "registerNewVisModels g (modReg vs) \<lparr>ModelRegistry = [cfg]\<rparr>")
  from ok r1 have e1: "e1 = None"
    by (cases e1) (simp_all add: visionService_AddDetector_def)
  from ok r1 e1 have seg: "visionService_AddSegmenter g (segmenterConf g cfg) (vs\<lparr>modReg := mm1\<rparr>) = (vs', None)"
    by (simp add: visionService_AddDetector_def)
  obtain mm2 e2 where r2: "registerNewVisModels g mm1 \<lparr>ModelRegistry = [segmenterConf g cfg]\<rparr> = (mm2, e2)"
    by (cases "registerNewVisModels g mm1 \<lparr>ModelRegistry = [segmenterConf g cfg]\<rparr>")
  from seg r2 have e2: "e2 = None" and vs': "modReg vs' = mm2"
    by (auto simp: visionService_AddSegmenter_def)
  from registerNewVisModels_single_ok[OF r1[unfolded e1]] obtain build m where
    b: "factories g (Type cfg) = Some build" "build (modReg vs) cfg = Inr m"
       "mm1 = AList.update (Name cfg) m (modReg vs)"
    by blast
  from registerNewVisModels_single_ok[OF r2[unfolded e2]] obtain build' s where
    b': "factories g (Type (segmenterConf g cfg)) = Some build'" "build' mm1 (segmenterConf g cfg) = Inr s"
        "mm2 = AList.update (Name (segmenterConf g cfg)) s mm1"
    by blast
  have t: "Type (segmenterConf g cfg) = DetectorSegmenter g"
    and n: "Name (segmenterConf g cfg) = Name cfg @ ''_segmenter''"
    by (simp_all add: segmenterConf_def)
  from b b' vs' show ?thesis unfolding t n by blast
qed

text \<open>
  C4. A successful \<^verbatim>\<open>AddDetector\<close> for a config named \<open>d\<close> leaves \<open>d\<close> registered and
  registers, under the name \<open>d_segmenter\<close>, the model built for the companion config of
  type \<^verbatim>\<open>DetectorSegmenter\<close>, so that the segmenter name list includes \<open>d_segmenter\<close>.
  When the detector was added and the companion add fails, \<^verbatim>\<open>AddDetector\<close> returns
  that failure and \<open>d\<close> stays registered.
\<close>

theorem AddDetector_registers_companion:
  assumes seg: "buildsSegmenters g"
  shows "(\<forall>vs'. visionService_AddDetector g cfg vs = (vs', None) \<longrightarrow>
            Name cfg \<in> set (modelNames (modReg vs'))
          \<and> Name cfg @ ''_segmenter'' \<in> set (modelNames (modReg vs'))
          \<and> Name cfg @ ''_segmenter'' \<in> set (SegmenterNames (modReg vs')))
       \<and> (\<forall>mm1 e. registerNewVisModels g (modReg vs) \<lparr>ModelRegistry = [cfg]\<rparr> = (mm1, None)
              \<and> snd (visionService_AddSegmenter g (segmenterConf g cfg) (vs\<lparr>modReg := mm1\<rparr>)) = Some e \<longrightarrow>
            visionService_AddDetector g cfg vs = (vs\<lparr>modReg := mm1\<rparr>, Some e)
          \<and> Name cfg \<in> set (modelNames mm1))"
proof (intro conjI allI impI)
  fix vs' assume ok: "visionService_AddDetector g cfg vs = (vs', None)"
  from AddDetector_ok[OF ok] obtain build m build' s where
    f: "factories g (DetectorSegmenter g) = Some build'"
       "build' (AList.update (Name cfg) m (modReg vs)) (segmenterConf g cfg) = Inr s"
    and mm: "modReg vs' = AList.update (Name cfg @ ''_segmenter'') s (AList.update (Name cfg) m (modReg vs))"
    by blast
  from seg f have k: "kind s = Segmenter"
    unfolding buildsSegmenters_def by blast
  show "Name cfg \<in> set (modelNames (modReg vs'))"
    by (simp add: mm modelNames_update)
  show "Name cfg @ ''_segmenter'' \<in> set (modelNames (modReg vs'))"
    by (simp add: mm modelNames_update)
  show "Name cfg @ ''_segmenter'' \<in> set (SegmenterNames (modReg vs'))"
    unfolding SegmenterNames_def mm by (rule namesOfKind_mem[OF update_mem k])
next
  fix mm1 e
  assume a: "registerNewVisModels g (modReg vs) \<lparr>ModelRegistry = [cfg]\<rparr> = (mm1, None)
     \<and> snd (visionService_AddSegmenter g (segmenterConf g cfg) (vs\<lparr>modReg := mm1\<rparr>)) = Some e"
  then have r1: "registerNewVisModels g (modReg vs) \<lparr>ModelRegistry = [cfg]\<rparr> = (mm1, None)"
    and sf: "snd (visionService_AddSegmenter g (segmenterConf g cfg) (vs\<lparr>modReg := mm1\<rparr>)) = Some e"
    by blast+
  obtain mm2 e2 where r2: "registerNewVisModels g mm1 \<lparr>ModelRegistry = [segmenterConf g cfg]\<rparr> = (mm2, e2)"
    by (cases "registerNewVisModels g mm1 \<lparr>ModelRegistry = [segmenterConf g cfg]\<rparr>")
  from sf r2 have e2: "e2 = Some e"
    by (simp add: visionService_AddSegmenter_def)
  from registerNewVisModels_single_failed[OF r2[unfolded e2]] have same: "mm2 = mm1" .
  from r2 e2 same have "visionService_AddSegmenter g (segmenterConf g cfg) (vs\<lparr>modReg := mm1\<rparr>) =
      (vs\<lparr>modReg := mm1\<rparr>, Some e)"
    by (simp add: visionService_AddSegmenter_def)
  with r1 show "visionService_AddDetector g cfg vs = (vs\<lparr>modReg := mm1\<rparr>, Some e)"
    by (simp add: visionService_AddDetector_def)
  from registerNewVisModels_single_ok[OF r1] obtain m where "mm1 = AList.update (Name cfg) m (modReg vs)"
    by blast
  then show "Name cfg \<in> set (modelNames mm1)"
    by (simp add: modelNames_update)
qed


theorem AddDetector_registers_companion_witness:
  "buildsSegmenters exGlobals
   \<and> visionService_AddDetector exGlobals exConfig exEmpty =
       (exEmpty\<lparr>modReg := [(''d1'', exDetector), (''d1_segmenter'', exSegmenter)]\<rparr>, None)
   \<and> ''d1'' \<in> set (modelNames [(''d1'', exDetector), (''d1_segmenter'', exSegmenter)])
   \<and> ''d1_segmenter'' \<in> set (SegmenterNames [(''d1'', exDetector), (''d1_segmenter'', exSegmenter)])
   \<and> buildsSegmenters exGlobalsFailing
   \<and> registerNewVisModels exGlobalsFailing (modReg exEmpty) \<lparr>ModelRegistry = [exConfig]\<rparr> =
       ([(''d1'', exDetector)], None)
   \<and> visionService_AddDetector exGlobalsFailing exConfig exEmpty =
       (exEmpty\<lparr>modReg := [(''d1'', exDetector)]\<rparr>, Some (UpstreamFailure ''no point cloud''))
   \<and> ''d1'' \<in> set (modelNames [(''d1'', exDetector)])"
proof -
  have s1: "buildsSegmenters exGlobals"
    by (auto simp: buildsSegmenters_def exGlobals_def kind_def exSegmenter_def)
  have s2: "buildsSegmenters exGlobalsFailing"
    by (auto simp: buildsSegmenters_def exGlobalsFailing_def)
  have ok: "visionService_AddDetector exGlobals exConfig exEmpty =
       (exEmpty\<lparr>modReg := [(''d1'', exDetector), (''d1_segmenter'', exSegmenter)]\<rparr>, None)"
    by (simp add: visionService_AddDetector_def visionService_AddSegmenter_def registerNewVisModels_def
        segmenterConf_def exGlobals_def exConfig_def exEmpty_def)
  have r1: "registerNewVisModels exGlobalsFailing (modReg exEmpty) \<lparr>ModelRegistry = [exConfig]\<rparr> =
       ([(''d1'', exDetector)], None)"
    by (simp add: registerNewVisModels_def exGlobalsFailing_def exConfig_def exEmpty_def)
  have sf: "snd (visionService_AddSegmenter exGlobalsFailing (segmenterConf exGlobalsFailing exConfig)
              (exEmpty\<lparr>modReg := [(''d1'', exDetector)]\<rparr>)) = Some (UpstreamFailure ''no point cloud'')"
    by (simp add: visionService_AddSegmenter_def registerNewVisModels_def segmenterConf_def
        exGlobalsFailing_def exConfig_def exEmpty_def)
  have nm: "Name exConfig = ''d1''" by (simp add: exConfig_def)
  from AddDetector_registers_companion[OF s1, of exConfig exEmpty] ok
  have a: "Name exConfig \<in> set (modelNames (modReg (exEmpty\<lparr>modReg := [(''d1'', exDetector), (''d1_segmenter'', exSegmenter)]\<rparr>)))
     \<and> Name exConfig @ ''_segmenter'' \<in> set (SegmenterNames (modReg (exEmpty\<lparr>modReg := [(''d1'', exDetector), (''d1_segmenter'', exSegmenter)]\<rparr>)))"
    by blast
  from AddDetector_registers_companion[OF s2, of exConfig exEmpty] r1 sf
  have b: "visionService_AddDetector exGlobalsFailing exConfig exEmpty =
       (exEmpty\<lparr>modReg := [(''d1'', exDetector)]\<rparr>, Some (UpstreamFailure ''no point cloud''))
     \<and> Name exConfig \<in> set (modelNames [(''d1'', exDetector)])"
    by blast
  from a have a': "''d1'' \<in> set (modelNames [(''d1'', exDetector), (''d1_segmenter'', exSegmenter)])
     \<and> ''d1_segmenter'' \<in> set (SegmenterNames [(''d1'', exDetector), (''d1_segmenter'', exSegmenter)])"
    by (simp add: nm)
  from b have b': "visionService_AddDetector exGlobalsFailing exConfig exEmpty =
       (exEmpty\<lparr>modReg := [(''d1'', exDetector)]\<rparr>, Some (UpstreamFailure ''no point cloud''))
     \<and> ''d1'' \<in> set (modelNames [(''d1'', exDetector)])"
    by (simp add: nm)
  from s1 ok a' s2 r1 b' show ?thesis by blast
qed

lemma sort_desc: "sorted_wrt (\<lambda>a b. Score b \<le> Score a) (sort_key (\<lambda>c. - Score c) cc)"
proof -
  have "sorted (map (\<lambda>c. - Score c) (sort_key (\<lambda>c. - Score c) cc))"
    by (rule sorted_sort_key)
  then show ?thesis
    by (simp add: sorted_map)
qed

lemma TopN_isTopN:
  assumes n: "0 \<le> n"
  shows "\<exists>res. TopN n full = Inr res \<and> isTopN n full res"
proof -
  let ?s = "sort_key (\<lambda>c. - Score c) full"
  let ?res = "take (nat n) ?s"
  let ?rest = "drop (nat n) ?s"
  have split: "?res @ ?rest = ?s" by simp
  have sorted_all: "sorted_wrt (\<lambda>a b. Score b \<le> Score a) (?res @ ?rest)"
    unfolding split by (rule sort_desc)
  then have 1: "sorted_wrt (\<lambda>a b. Score b \<le> Score a) ?res"
    and 2: "\<forall>a\<in>set ?res. \<forall>b\<in>set ?rest. Score b \<le> Score a"
    unfolding sorted_wrt_append by blast+
  have 3: "mset (?res @ ?rest) = mset full"
    unfolding split by simp
  from n have 4: "int (length ?res) = min n (int (length full))"
    by simp
  from 1 2 3 4 have "isTopN n full ?res"
    unfolding isTopN_def by blast
  then show ?thesis by (simp add: TopN_def)
qed

text \<open>
  C6. For a bound \<open>n \<ge> 0\<close>: when the named model is a classifier and classifies the
  image into \<open>full\<close>, \<^verbatim>\<open>GetClassifications\<close> returns the top-n reduction of \<open>full\<close>:
  \<open>min n (length full)\<close> entries, in order of non-increasing confidence, none of them
  with a lower confidence than an entry left out. \<^verbatim>\<open>GetClassificationsFromCamera\<close>
  does the same for the image it reads from the named camera.
\<close>

theorem GetClassifications_topN:
  assumes n: "0 \<le> n"
  shows "(\<forall>c classifier full.
            modelLookup classifierName (modReg vs) = Inr c \<and> toClassifier c = Inr classifier
            \<and> classifier img = Inr full \<longrightarrow>
            (\<exists>res. visionService_GetClassifications img classifierName n vs = Inr res \<and> isTopN n full res))
       \<and> (\<forall>cam c classifier img' full.
            camera_FromRobot (robot vs) cameraName = Inr cam
            \<and> modelLookup classifierName (modReg vs) = Inr c \<and> toClassifier c = Inr classifier
            \<and> camera_ReadImage cam = Inr img' \<and> classifier img' = Inr full \<longrightarrow>
            (\<exists>res. visionService_GetClassificationsFromCamera cameraName classifierName n vs = Inr res
                   \<and> isTopN n full res))"
proof (intro conjI allI impI)
  fix c classifier full
  assume "modelLookup classifierName (modReg vs) = Inr c \<and> toClassifier c = Inr classifier
            \<and> classifier img = Inr full"
  then have "visionService_GetClassifications img classifierName n vs = TopN n full"
    by (simp add: visionService_GetClassifications_def)
  with TopN_isTopN[OF n, of full]
  show "\<exists>res. visionService_GetClassifications img classifierName n vs = Inr res \<and> isTopN n full res"
    by simp
next
  fix cam c classifier img' full
  assume "camera_FromRobot (robot vs) cameraName = Inr cam
            \<and> modelLookup classifierName (modReg vs) = Inr c \<and> toClassifier c = Inr classifier
            \<and> camera_ReadImage cam = Inr img' \<and> classifier img' = Inr full"
  then have "visionService_GetClassificationsFromCamera cameraName classifierName n vs = TopN n full"
    by (simp add: visionService_GetClassificationsFromCamera_def)
  with TopN_isTopN[OF n, of full]
  show "\<exists>res. visionService_GetClassificationsFromCamera cameraName classifierName n vs = Inr res
                   \<and> isTopN n full res"
    by simp
qed


theorem GetClassifications_topN_witness:
  "(0::int) \<le> 2
   \<and> visionService_GetClassifications () ''c1'' 2 exService =
       Inr [\<lparr>Label = ''dog'', Score = 7\<rparr>, \<lparr>Label = ''cat'', Score = 2\<rparr>]
   \<and> isTopN 2 exFull [\<lparr>Label = ''dog'', Score = 7\<rparr>, \<lparr>Label = ''cat'', Score = 2\<rparr>]
   \<and> visionService_GetClassificationsFromCamera ''cam1'' ''c1'' 5 exCamService =
       Inr [\<lparr>Label = ''dog'', Score = 7\<rparr>, \<lparr>Label = ''cat'', Score = 2\<rparr>, \<lparr>Label = ''owl'', Score = 1\<rparr>]
   \<and> isTopN 5 exFull [\<lparr>Label = ''dog'', Score = 7\<rparr>, \<lparr>Label = ''cat'', Score = 2\<rparr>, \<lparr>Label = ''owl'', Score = 1\<rparr>]"
proof -
  let ?f = "\<lambda>img::unit. (Inr exFull :: error + Classifications)"
  have l1: "modelLookup ''c1'' (modReg exService) = Inr exClassifier"
    by (simp add: modelLookup_def exService_def)
  have l2: "modelLookup ''c1'' (modReg exCamService) = Inr exClassifier"
    by (simp add: modelLookup_def exCamService_def)
  have tc: "toClassifier exClassifier = Inr ?f"
    by (simp add: toClassifier_def exClassifier_def)
  have cam: "camera_FromRobot (robot exCamService) ''cam1'' = Inr (Inr ())"
    by (simp add: camera_FromRobot_def exCamService_def)
  have rd: "camera_ReadImage (Inr () :: unit Camera) = Inr ()"
    by (simp add: camera_ReadImage_def)
  have v1: "visionService_GetClassifications () ''c1'' 2 exService =
       Inr [\<lparr>Label = ''dog'', Score = 7\<rparr>, \<lparr>Label = ''cat'', Score = 2\<rparr>]"
    by (simp add: visionService_GetClassifications_def l1 tc exFull_def TopN_def)
  have v2: "visionService_GetClassificationsFromCamera ''cam1'' ''c1'' 5 exCamService =
       Inr [\<lparr>Label = ''dog'', Score = 7\<rparr>, \<lparr>Label = ''cat'', Score = 2\<rparr>, \<lparr>Label = ''owl'', Score = 1\<rparr>]"
    by (simp add: visionService_GetClassificationsFromCamera_def cam rd l2 tc exFull_def TopN_def)
  have n2: "(0::int) \<le> 2" and n5: "(0::int) \<le> 5" by simp_all
  from GetClassifications_topN[OF n2, of "''c1''" exService "()"] l1 tc
  have "\<exists>res. visionService_GetClassifications () ''c1'' 2 exService = Inr res \<and> isTopN 2 exFull res"
    by blast
  with v1 have a: "isTopN 2 exFull [\<lparr>Label = ''dog'', Score = 7\<rparr>, \<lparr>Label = ''cat'', Score = 2\<rparr>]"
    by auto
  from GetClassifications_topN[OF n5, of "''c1''" exCamService _ "''cam1''"] cam l2 tc rd
  have "\<exists>res. visionService_GetClassificationsFromCamera ''cam1'' ''c1'' 5 exCamService = Inr res
          \<and> isTopN 5 exFull res"
    by blast
  with v2 have b: "isTopN 5 exFull [\<lparr>Label = ''dog'', Score = 7\<rparr>, \<lparr>Label = ''cat'', Score = 2\<rparr>, \<lparr>Label = ''owl'', Score = 1\<rparr>]"
    by auto
  from n2 v1 a v2 b show ?thesis by blast
qed

subsection \<open>The registry invariant, and the delegation of the shim\<close>

lemma wf_removeVisModel: "wf_modelMap mm \<Longrightarrow> wf_modelMap (fst (removeVisModel name mm))"
  by (simp add: wf_modelMap_def removeVisModel_def distinct_delete split: option.splits)

lemma wf_registerModels: "wf_modelMap mm \<Longrightarrow> wf_modelMap (fst (registerModels g mm cfgs))"
proof (induction cfgs arbitrary: mm)
  case Nil
  then show ?case by simp
next
  case (Cons attr rest)
  show ?case
  proof (cases "factories g (Type attr)")
    case None
    with Cons.prems show ?thesis by simp
  next
    case (Some build)
    show ?thesis
    proof (cases "build mm attr")
      case (Inl err)
      with Some Cons.prems show ?thesis by simp
    next
      case (Inr m)
      from Cons.prems have "wf_modelMap (AList.update (Name attr) m mm)"
        by (simp add: wf_modelMap_def distinct_update)
      from Cons.IH[OF this] Some Inr show ?thesis by simp
    qed
  qed
qed

lemma wf_Close_loop: "wf_modelMap mm \<Longrightarrow> wf_modelMap (fst (Close_loop names mm))"
proof (induction names arbitrary: mm)
  case Nil
  then show ?case by simp
next
  case (Cons name names)
  obtain mm' res where r: "removeVisModel name mm = (mm', res)"
    by (cases "removeVisModel name mm")
  with wf_removeVisModel[OF Cons.prems, of name] have wf': "wf_modelMap mm'" by simp
  show ?case
  proof (cases res)
    case None
    with r Cons.IH[OF wf'] show ?thesis by simp
  next
    case (Some err)
    with r wf' show ?thesis by simp
  qed
qed

text \<open>
  The registry of a service built by \<^verbatim>\<open>New\<close> has distinct names, and every operation
  of the service that changes the registry keeps them distinct: \<open>wf_modelMap\<close> holds of
  every registry the code can reach.
\<close>

lemma wf_New: "New g r ca = Inr vs \<Longrightarrow> wf_modelMap (modReg vs)"
proof -
  assume a: "New g r ca = Inr vs"
  have e: "wf_modelMap ([] :: 'a modelMap)" by (simp add: wf_modelMap_def)
  show ?thesis
  proof (cases ca)
    case NilAttributes
    with a e show ?thesis by (auto simp: New_def)
  next
    case (AttributesPtr attrs)
    from wf_registerModels[OF e, of g "ModelRegistry attrs"]
    have "wf_modelMap (fst (registerNewVisModels g [] attrs))"
      by (simp add: registerNewVisModels_def)
    with a AttributesPtr show ?thesis
      by (auto simp: New_def split: prod.splits option.splits)
  next
    case (OtherAttributes k)
    with a show ?thesis by (simp add: New_def)
  qed
qed

lemma wf_operations:
  assumes wf: "wf_modelMap (modReg vs)"
  shows "wf_modelMap (modReg (fst (visionService_AddDetector g cfg vs)))"
    and "wf_modelMap (modReg (fst (visionService_AddClassifier g cfg vs)))"
    and "wf_modelMap (modReg (fst (visionService_AddSegmenter g cfg vs)))"
    and "wf_modelMap (modReg (fst (visionService_RemoveDetector name vs)))"
    and "wf_modelMap (modReg (fst (visionService_RemoveClassifier name vs)))"
    and "wf_modelMap (modReg (fst (visionService_RemoveSegmenter name vs)))"
    and "wf_modelMap (modReg (fst (visionService_Close vs)))"
proof -
  have seg: "wf_modelMap (modReg (fst (visionService_AddSegmenter g c v)))" if "wf_modelMap (modReg v)" for c v
  proof -
    obtain mm err where r: "registerModels g (modReg v) [c] = (mm, err)"
      by (cases "registerModels g (modReg v) [c]")
    with wf_registerModels[OF that, of g "[c]"] have "wf_modelMap mm"
      by (simp del: registerModels.simps)
    with r show ?thesis
      by (simp add: visionService_AddSegmenter_def registerNewVisModels_def del: registerModels.simps)
  qed
  have rseg: "wf_modelMap (modReg (fst (visionService_RemoveSegmenter n v)))" if "wf_modelMap (modReg v)" for n v
    using wf_removeVisModel[OF that, of n]
    by (auto simp: visionService_RemoveSegmenter_def split: prod.splits)
  from wf show "wf_modelMap (modReg (fst (visionService_AddSegmenter g cfg vs)))" by (rule seg)
  from wf show "wf_modelMap (modReg (fst (visionService_RemoveSegmenter name vs)))" by (rule rseg)
  have r1: "wf_modelMap (fst (registerModels g (modReg vs) [cfg]))"
    by (rule wf_registerModels[OF wf])
  show "wf_modelMap (modReg (fst (visionService_AddDetector g cfg vs)))"
  proof (cases "registerModels g (modReg vs) [cfg]")
    case (Pair mm err)
    with r1 have wfmm: "wf_modelMap (modReg (vs\<lparr>modReg := mm\<rparr>))" by (simp del: registerModels.simps)
    show ?thesis
    proof (cases err)
      case None
      with Pair seg[OF wfmm] show ?thesis
        by (simp add: visionService_AddDetector_def registerNewVisModels_def del: registerModels.simps)
    next
      case (Some e)
      with Pair wfmm show ?thesis
        by (simp add: visionService_AddDetector_def registerNewVisModels_def del: registerModels.simps)
    qed
  qed
  show "wf_modelMap (modReg (fst (visionService_AddClassifier g cfg vs)))"
  proof (cases "registerModels g (modReg vs) [cfg]")
    case (Pair mm err)
    with r1 have "wf_modelMap mm" by (simp del: registerModels.simps)
    with Pair show ?thesis
      by (cases err) (simp_all add: visionService_AddClassifier_def registerNewVisModels_def del: registerModels.simps)
  qed
  have d1: "wf_modelMap (fst (removeVisModel name (modReg vs)))"
    by (rule wf_removeVisModel[OF wf])
  show "wf_modelMap (modReg (fst (visionService_RemoveDetector name vs)))"
  proof (cases "removeVisModel name (modReg vs)")
    case (Pair mm err)
    with d1 have wfmm: "wf_modelMap (modReg (vs\<lparr>modReg := mm\<rparr>))" by simp
    show ?thesis
    proof (cases err)
      case None
      with Pair rseg[OF wfmm] show ?thesis
        by (simp add: visionService_RemoveDetector_def)
    next
      case (Some e)
      with Pair wfmm show ?thesis
        by (simp add: visionService_RemoveDetector_def)
    qed
  qed
  from d1 show "wf_modelMap (modReg (fst (visionService_RemoveClassifier name vs)))"
    by (auto simp: visionService_RemoveClassifier_def split: prod.splits option.splits)
  from wf_Close_loop[OF wf, of "modelNames (modReg vs)"] show "wf_modelMap (modReg (fst (visionService_Close vs)))"
    by (auto simp: visionService_Close_def split: prod.splits)
qed

text \<open>
  Apart from \<^verbatim>\<open>RemoveClassifier\<close>, each method of the shim is the method of the same
  name on its actual service.
\<close>

lemma shim_delegates:
  "reconfigurableVision_GetModelParameterSchema tab t (Shim a) = Service_GetModelParameterSchema tab t a"
  "reconfigurableVision_GetDetectorNames (Shim a) = Service_GetDetectorNames a"
  "reconfigurableVision_AddDetector g cfg (Shim a) = map_prod Shim id (Service_AddDetector g cfg a)"
  "reconfigurableVision_RemoveDetector name (Shim a) = map_prod Shim id (Service_RemoveDetector name a)"
  "reconfigurableVision_GetDetectionsFromCamera cam name (Shim a) = Service_GetDetectionsFromCamera cam name a"
  "reconfigurableVision_GetDetections img name (Shim a) = Service_GetDetections img name a"
  "reconfigurableVision_GetClassifierNames (Shim a) = Service_GetClassifierNames a"
  "reconfigurableVision_AddClassifier g cfg (Shim a) = map_prod Shim id (Service_AddClassifier g cfg a)"
  "reconfigurableVision_GetClassificationsFromCamera cam name n (Shim a) =
     Service_GetClassificationsFromCamera cam name n a"
  "reconfigurableVision_GetClassifications img name n (Shim a) = Service_GetClassifications img name n a"
  "reconfigurableVision_GetSegmenterNames (Shim a) = Service_GetSegmenterNames a"
  "reconfigurableVision_AddSegmenter g cfg (Shim a) = map_prod Shim id (Service_AddSegmenter g cfg a)"
  "reconfigurableVision_RemoveSegmenter name (Shim a) = map_prod Shim id (Service_RemoveSegmenter name a)"
  "reconfigurableVision_GetObjectPointClouds cam name (Shim a) = Service_GetObjectPointClouds cam name a"
  "reconfigurableVision_Close (Shim a) = map_prod Shim id (TryClose a)"
  by simp_all

lemma shim_RemoveClassifier_is_RemoveDetector:
  "reconfigurableVision_RemoveClassifier name svc = reconfigurableVision_RemoveDetector name svc"
  by (cases svc) simp

end
